theory Spec2Isabelle
  imports Main
begin

section \<open>Python values used by migrate\_database.py\<close>

text \<open>
  A Python \<open>str\<close> is a \<open>string\<close>; a value that may be \<open>None\<close> is an option.
  An exception that no handler of the script catches ends the run; it is a value of
  \<open>exn\<close>, returned on the left of a sum.
\<close>

datatype exn = ValueError | TypeError | OSError

text \<open>Truthiness of an optional string, as \<open>if x\<close> and \<open>not x\<close> test it.\<close>

fun truthy :: "string option \<Rightarrow> bool" where
  "truthy None = False"
| "truthy (Some s) = (s \<noteq> [])"

text \<open>\<open>str(n)\<close> of a non-negative integer.\<close>

definition digits :: string where
  "digits = ''0123456789''"

definition digit_char :: "nat \<Rightarrow> char" where
  "digit_char d = digits ! d"

fun str_nat :: "nat \<Rightarrow> string" where
  "str_nat n = (if n < 10 then [digit_char n] else str_nat (n div 10) @ [digit_char (n mod 10)])"

declare str_nat.simps [simp del]

text \<open>\<open>s.zfill(k)\<close>: zeros on the left up to width \<open>k\<close>.\<close>

definition zfill :: "nat \<Rightarrow> string \<Rightarrow> string" where
  "zfill k s = replicate (k - length s) CHR ''0'' @ s"

definition is_ascii :: "char \<Rightarrow> bool" where
  "is_ascii c = (of_char c < (128::nat))"

definition ascii_uppercase :: string where
  "ascii_uppercase = ''ABCDEFGHIJKLMNOPQRSTUVWXYZ''"

definition ascii_lowercase :: string where
  "ascii_lowercase = ''abcdefghijklmnopqrstuvwxyz''"

definition ascii_alpha :: "char \<Rightarrow> bool" where
  "ascii_alpha c = (c \<in> set ascii_uppercase \<or> c \<in> set ascii_lowercase)"

definition ascii_digit :: "char \<Rightarrow> bool" where
  "ascii_digit c = (c \<in> set digits)"

text \<open>
  \<open>s.lower()\<close>. Letters of ASCII are mapped; a char from 128 on stands for text outside
  ASCII, whose case mapping comes from the Unicode tables and is left as it is here.
\<close>

definition lower_char :: "char \<Rightarrow> char" where
  "lower_char c = (case map_of (zip ascii_uppercase ascii_lowercase) c of None \<Rightarrow> c | Some l \<Rightarrow> l)"

definition lower :: "string \<Rightarrow> string" where
  "lower s = map lower_char s"

text \<open>\<open>s.lstrip(chars)\<close>.\<close>

definition lstrip :: "string \<Rightarrow> string \<Rightarrow> string" where
  "lstrip chars s = dropWhile (\<lambda>c. c \<in> set chars) s"

text \<open>
  \<open>s.partition(c)\<close> and \<open>s.rpartition(c)\<close> for a separator of one character: the part
  before, whether the separator was found, the part after.
\<close>

definition partition_str :: "char \<Rightarrow> string \<Rightarrow> string \<times> bool \<times> string" where
  "partition_str c s = (takeWhile (\<lambda>x. x \<noteq> c) s, c \<in> set s, drop 1 (dropWhile (\<lambda>x. x \<noteq> c) s))"

definition rpartition_str :: "char \<Rightarrow> string \<Rightarrow> string \<times> bool \<times> string" where
  "rpartition_str c s =
     (if c \<in> set s
      then (rev (drop 1 (dropWhile (\<lambda>x. x \<noteq> c) (rev s))), True, rev (takeWhile (\<lambda>x. x \<noteq> c) (rev s)))
      else ([], False, s))"

section \<open>urllib.parse, as far as parse\_database\_url uses it\<close>

text \<open>
  The functions below follow \<open>urlsplit\<close>, \<open>urlparse\<close> and the properties
  \<open>hostname\<close>, \<open>port\<close>, \<open>username\<close> and \<open>password\<close> of CPython 3.12.
  Two checks of \<open>urlsplit\<close> consult tables that are not modelled, the \<open>ipaddress\<close> module
  for a host in brackets and the NFKC normalisation for a network location outside
  ASCII; they are parameters.
\<close>

record urllib =
  check_bracketed_host :: "string \<Rightarrow> bool"
  nfkc_safe :: "string \<Rightarrow> bool"

record parse_result =
  scheme :: string
  netloc :: string
  path :: string
  params :: string
  query :: string
  fragment :: string

definition scheme_chars :: string where
  "scheme_chars = ascii_lowercase @ ascii_uppercase @ digits @ ''+-.''"

definition uses_params :: "string list" where
  "uses_params = ['''', ''ftp'', ''hdl'', ''prospero'', ''http'', ''imap'', ''https'', ''shttp'',
     ''rtsp'', ''rtsps'', ''rtspu'', ''sip'', ''sips'', ''mms'', ''sftp'', ''tel'']"

text \<open>The characters \<open>urlsplit\<close> strips on the left: the C0 controls and the space.\<close>

definition c0_control_or_space :: "char \<Rightarrow> bool" where
  "c0_control_or_space c = (of_char c \<le> (32::nat))"

text \<open>The characters \<open>urlsplit\<close> removes everywhere: tab, carriage return, line feed.\<close>

definition unsafe_url_byte :: "char \<Rightarrow> bool" where
  "unsafe_url_byte c = (of_char c \<in> {9::nat, 10, 13})"

text \<open>
  The scheme: the text before the first colon, when it is not empty, starts with a letter
  of ASCII and holds scheme characters only. Otherwise the scheme is empty and the
  text is left whole.
\<close>

definition split_scheme :: "string \<Rightarrow> string \<times> string" where
  "split_scheme url =
     (let pre = takeWhile (\<lambda>x. x \<noteq> CHR '':'') url in
      case pre of
        [] \<Rightarrow> ([], url)
      | c # _ \<Rightarrow>
          if CHR '':'' \<in> set url \<and> is_ascii c \<and> ascii_alpha c
             \<and> list_all (\<lambda>x. x \<in> set scheme_chars) pre
          then (lower pre, drop (length pre + 1) url)
          else ([], url))"

text \<open>\<open>_splitnetloc(url, 2)\<close>, on the text after the two slashes.\<close>

definition splitnetloc :: "string \<Rightarrow> string \<times> string" where
  "splitnetloc rest =
     (takeWhile (\<lambda>x. x \<notin> set ''/?#'') rest, dropWhile (\<lambda>x. x \<notin> set ''/?#'') rest)"

text \<open>\<open>url.split(c, 1)\<close> when \<open>c\<close> occurs, the text and an empty second part otherwise.\<close>

definition split_once :: "char \<Rightarrow> string \<Rightarrow> string \<times> string" where
  "split_once c s = (takeWhile (\<lambda>x. x \<noteq> c) s, drop 1 (dropWhile (\<lambda>x. x \<noteq> c) s))"

definition checknetloc :: "urllib \<Rightarrow> string \<Rightarrow> bool" where
  "checknetloc lib nl = (nl = [] \<or> list_all is_ascii nl \<or> nfkc_safe lib nl)"

definition urlsplit :: "urllib \<Rightarrow> string \<Rightarrow> exn + parse_result" where
  "urlsplit lib url0 =
     (let url1 = dropWhile c0_control_or_space url0;
          url2 = filter (\<lambda>c. \<not> unsafe_url_byte c) url1;
          (sch, url3) = split_scheme url2;
          has_netloc = (take 2 url3 = ''//'');
          (nl, url4) = (if has_netloc then splitnetloc (drop 2 url3) else ([], url3));
          opens = (CHR ''['' \<in> set nl);
          closes = (CHR '']'' \<in> set nl)
      in if has_netloc \<and> ((opens \<and> \<not> closes) \<or> (closes \<and> \<not> opens)) then Inl ValueError
         else if has_netloc \<and> opens \<and> closes
                 \<and> \<not> check_bracketed_host lib
                      (fst (partition_str CHR '']'' (snd (snd (partition_str CHR ''['' nl)))))
         then Inl ValueError
         else
           (let (url5, frag) = split_once CHR ''#'' url4;
                (url6, qry) = split_once CHR ''?'' url5
            in if \<not> checknetloc lib nl then Inl ValueError
               else Inr \<lparr>scheme = sch, netloc = nl, path = url6, params = [],
                         query = qry, fragment = frag\<rparr>))"

text \<open>\<open>_splitparams\<close>: the parameters follow the first semicolon of the last path segment.\<close>

definition splitparams :: "string \<Rightarrow> string \<times> string" where
  "splitparams url =
     (if CHR ''/'' \<in> set url
      then (let seg = rev (takeWhile (\<lambda>x. x \<noteq> CHR ''/'') (rev url));
                 dir = take (length url - length seg) url
            in if CHR '';'' \<in> set seg
               then (dir @ takeWhile (\<lambda>x. x \<noteq> CHR '';'') seg,
                     drop 1 (dropWhile (\<lambda>x. x \<noteq> CHR '';'') seg))
               else (url, []))
      else split_once CHR '';'' url)"

definition urlparse :: "urllib \<Rightarrow> string \<Rightarrow> exn + parse_result" where
  "urlparse lib url =
     (case urlsplit lib url of
        Inl e \<Rightarrow> Inl e
      | Inr r \<Rightarrow>
          if scheme r \<in> set uses_params \<and> CHR '';'' \<in> set (path r)
          then (let (p, ps) = splitparams (path r) in Inr (r\<lparr>path := p, params := ps\<rparr>))
          else Inr r)"

text \<open>The properties of a parse result.\<close>

definition userinfo :: "parse_result \<Rightarrow> string option \<times> string option" where
  "userinfo r =
     (let (ui, have_info, hi) = rpartition_str CHR ''@'' (netloc r) in
      if have_info
      then (let (user, have_password, pw) = partition_str CHR '':'' ui in
            (Some user, if have_password then Some pw else None))
      else (None, None))"

definition hostinfo :: "parse_result \<Rightarrow> string \<times> string option" where
  "hostinfo r =
     (let (ui, have_info, hi) = rpartition_str CHR ''@'' (netloc r);
          (before, have_open_br, bracketed) = partition_str CHR ''['' hi;
          (hostname, prt) =
             (if have_open_br
              then (let (h, found, after) = partition_str CHR '']'' bracketed
                    in (h, snd (snd (partition_str CHR '':'' after))))
              else (let (h, found, p) = partition_str CHR '':'' hi in (h, p)))
      in (hostname, if prt = [] then None else Some prt))"

definition username_of :: "parse_result \<Rightarrow> string option" where
  "username_of r = fst (userinfo r)"

definition password_of :: "parse_result \<Rightarrow> string option" where
  "password_of r = snd (userinfo r)"

definition hostname_of :: "parse_result \<Rightarrow> string option" where
  "hostname_of r =
     (let h = fst (hostinfo r) in
      if h = [] then None
      else (let (name, percent, zone) = partition_str CHR ''%'' h
            in Some (lower name @ (if percent then ''%'' else []) @ zone)))"

definition int_of_digits :: "string \<Rightarrow> nat" where
  "int_of_digits s = foldl (\<lambda>a c. 10 * a + length (takeWhile (\<lambda>d. d \<noteq> c) digits)) 0 s"

definition port_of :: "parse_result \<Rightarrow> exn + nat option" where
  "port_of r =
     (case snd (hostinfo r) of
        None \<Rightarrow> Inr None
      | Some p \<Rightarrow>
          if list_all ascii_digit p
          then (if int_of_digits p \<le> 65535 then Inr (Some (int_of_digits p)) else Inl ValueError)
          else Inl ValueError)"

section \<open>The connection descriptor and parse\_database\_url\<close>

text \<open>
  The dictionary with the keys \<open>host\<close>, \<open>port\<close>, \<open>database\<close>, \<open>username\<close> and
  \<open>password\<close>. The port and the database name are always strings; the other three are
  \<open>None\<close> when a URL does not carry them.
\<close>

record config =
  host :: "string option"
  port :: string
  database :: string
  username :: "string option"
  password :: "string option"

text \<open>\<open>parsed.port or 5432\<close>: \<open>None\<close> and \<open>0\<close> are both falsy.\<close>

definition port_or_default :: "nat option \<Rightarrow> nat" where
  "port_or_default p = (case p of None \<Rightarrow> 5432 | Some n \<Rightarrow> if n = 0 then 5432 else n)"

definition parse_database_url :: "urllib \<Rightarrow> string \<Rightarrow> exn + config" where
  "parse_database_url lib database_url =
     (case urlparse lib database_url of
        Inl e \<Rightarrow> Inl e
      | Inr parsed \<Rightarrow>
          (case port_of parsed of
             Inl e \<Rightarrow> Inl e
           | Inr p \<Rightarrow>
               Inr \<lparr>host = hostname_of parsed,
                    port = str_nat (port_or_default p),
                    database = lstrip ''/'' (path parsed),
                    username = username_of parsed,
                    password = password_of parsed\<rparr>))"

section \<open>The clock and the backup file name\<close>

text \<open>
  The value of \<open>datetime.now()\<close>. \<open>strftime\<close> is the call
  \<open>strftime("%Y%m%d_%H%M%S")\<close> of the script: the year in decimal, as the C library of
  Linux prints \<open>%Y\<close> (no padding, so a year below 1000 has fewer than four digits), and
  every other field in decimal, padded with zeros to two digits.
\<close>

record datetime =
  year :: nat
  month :: nat
  day :: nat
  hour :: nat
  minute :: nat
  second :: nat
  microsecond :: nat

definition strftime :: "datetime \<Rightarrow> string" where
  "strftime t =
     str_nat (year t) @ zfill 2 (str_nat (month t)) @ zfill 2 (str_nat (day t)) @ ''_''
     @ zfill 2 (str_nat (hour t)) @ zfill 2 (str_nat (minute t)) @ zfill 2 (str_nat (second t))"

text \<open>The ranges of the fields of a Python \<open>datetime\<close>, with the year from 1000.\<close>

definition valid_datetime :: "datetime \<Rightarrow> bool" where
  "valid_datetime t =
     (1000 \<le> year t \<and> year t \<le> 9999 \<and> 1 \<le> month t \<and> month t \<le> 12 \<and> 1 \<le> day t \<and> day t \<le> 31
      \<and> hour t < 24 \<and> minute t < 60 \<and> second t < 60 \<and> microsecond t < 1000000)"

section \<open>The world outside the script\<close>

text \<open>
  What the script does to the world, in the order it does it: each call of
  \<open>psycopg2.connect\<close>, of a connection's \<open>cursor\<close> and \<open>close\<close>, of a cursor's
  \<open>execute\<close> (with the \<open>fetchone\<close> that follows it), of \<open>datetime.now\<close>, of
  \<open>subprocess.run\<close> (the command line and the value of \<open>PGPASSWORD\<close> in the child's
  environment) and of \<open>os.path.getsize\<close>.
\<close>

datatype sql_query =
    DatabaseSize  \<comment> \<open>\<open>SELECT pg_size_pretty(pg_database_size(current_database()));\<close>\<close>
  | TableCount    \<comment> \<open>\<open>SELECT COUNT(*) FROM information_schema.tables WHERE table_schema = 'public';\<close>\<close>
  | RowCount      \<comment> \<open>\<open>SELECT SUM(n_tup_ins + n_tup_upd + n_tup_del) as total_rows FROM pg_stat_user_tables;\<close>\<close>

datatype effect =
    PgConnect config
  | OpenCursor
  | Execute sql_query
  | ConnClose
  | Now
  | RunProcess "string list" string
  | GetSize string

datatype sqlval = SqlNull | SqlInt int | SqlText string

text \<open>
  The result of \<open>subprocess.run\<close>: a completed process, or the exception raised. With
  \<open>text=True\<close> the output of the process is decoded strictly once the process has
  ended; \<open>Undecodable rc\<close> is the \<open>UnicodeDecodeError\<close>, a \<open>ValueError\<close>, raised when
  the process has ended with status \<open>rc\<close> and its output does not decode.
\<close>

datatype os_error = FileNotFoundError | OtherOSError

datatype proc_result =
    Completed (returncode: int) (stdout: string) (stderr: string)
  | Raised os_error
  | Undecodable int

text \<open>
  The world answers each call. An answer may depend on everything the script has done
  before (the effects so far), so two calls with the same arguments need not agree.
  For a call that can raise, \<open>Some e\<close> or \<open>Inl e\<close> is the exception raised, with its text.
\<close>

record world =
  environ :: "string \<Rightarrow> string option"
  urllib_tables :: urllib
  clock :: "effect list \<Rightarrow> datetime"
  pg_connect :: "effect list \<Rightarrow> config \<Rightarrow> string option"
  conn_cursor :: "effect list \<Rightarrow> string option"
  cursor_fetch :: "effect list \<Rightarrow> sql_query \<Rightarrow> string + sqlval"
  conn_close :: "effect list \<Rightarrow> string option"
  subprocess_run :: "effect list \<Rightarrow> string list \<Rightarrow> string \<Rightarrow> proc_result"
  getsize :: "effect list \<Rightarrow> string \<Rightarrow> os_error + nat"

text \<open>The dictionary that \<open>get_database_info\<close> returns.\<close>

record info =
  size_info :: sqlval
  tables :: sqlval
  rows :: sqlval

text \<open>
  One constructor for each \<open>print\<close> of the script, with the values it interpolates.
  (The size of the backup is printed in megabytes with two decimals; the message
  carries the number of bytes.)
\<close>

datatype message =
    ConnectOk config               \<comment> \<open>Successfully connected to host:port/database\<close>
  | ConnectFailed config           \<comment> \<open>Failed to connect to host:port/database\<close>
  | ErrorText string               \<comment> \<open>Error: e\<close>
  | CreatingBackup                 \<comment> \<open>Creating backup of local database...\<close>
  | BackupCreated string           \<comment> \<open>Backup created successfully: backup\_file\<close>
  | FileSize nat                   \<comment> \<open>File size: ... MB\<close>
  | BackupFailed string            \<comment> \<open>Backup failed: stderr\<close>
  | PgDumpNotFound                 \<comment> \<open>pg\_dump not found. Please install PostgreSQL client tools.\<close>
  | Restoring string               \<comment> \<open>Restoring database from backup\_file...\<close>
  | RestoredOk                     \<comment> \<open>Database restored successfully!\<close>
  | RestoreWarnings string         \<comment> \<open>Restore completed with warnings: stderr\<close>
  | PgRestoreNotFound              \<comment> \<open>pg\_restore not found. Please install PostgreSQL client tools.\<close>
  | InfoError string               \<comment> \<open>Error getting database info: e\<close>
  | DatabaseInfoLine info          \<comment> \<open>Database Info: size, tables tables, \~rows rows\<close>
  | LocalInfoHeader                \<comment> \<open>Local Database Information:\<close>
  | InfoSize sqlval                \<comment> \<open>Size: size\<close>
  | InfoTables sqlval              \<comment> \<open>Tables: tables\<close>
  | InfoRows sqlval                \<comment> \<open>Rows: \~rows\<close>
  | TestingLocal                   \<comment> \<open>Testing local database connection...\<close>
  | TestingTarget                  \<comment> \<open>Testing target database connection...\<close>
  | RestoreNeedsArgs               \<comment> \<open>Both --backup-file and --target-url are required for restore\<close>
  | MigrateNeedsUrl                \<comment> \<open>--target-url is required for migration\<close>
  | StartingMigration              \<comment> \<open>Starting full database migration...\<close>
  | StepTestingConnections         \<comment> \<open>1. Testing connections...\<close>
  | CannotConnectLocal             \<comment> \<open>Cannot connect to local database\<close>
  | CannotConnectTarget            \<comment> \<open>Cannot connect to target database\<close>
  | StepCreatingBackup             \<comment> \<open>2. Creating backup...\<close>
  | BackupFailedStop               \<comment> \<open>Backup failed\<close>
  | StepRestoring                  \<comment> \<open>3. Restoring to target...\<close>
  | MigrationCompleted             \<comment> \<open>Migration completed successfully!\<close>
  | CanDeleteBackup string         \<comment> \<open>You can now delete the backup file: backup\_file\<close>
  | MigrationFailedRestore         \<comment> \<open>Migration failed during restore\<close>
  | DeployingRailway               \<comment> \<open>Deploying to Railway...\<close>
  | DeployingHeroku                \<comment> \<open>Deploying to Heroku...\<close>
  | Hint string                    \<comment> \<open>a numbered line of instructions\<close>

text \<open>
  The state of a run: what it has done to the world and what it has printed. Printing is
  taken to succeed: the standard output accepts every message.
\<close>

record state =
  effects :: "effect list"
  printed :: "message list"

definition perform :: "effect \<Rightarrow> state \<Rightarrow> state" where
  "perform e s = s\<lparr>effects := effects s @ [e]\<rparr>"

definition print :: "message \<Rightarrow> state \<Rightarrow> state" where
  "print m s = s\<lparr>printed := printed s @ [m]\<rparr>"

section \<open>class DatabaseMigrator\<close>

text \<open>\<open>os.getenv(key, default)\<close>.\<close>

definition getenv :: "world \<Rightarrow> string \<Rightarrow> string \<Rightarrow> string" where
  "getenv w key dflt = (case environ w key of None \<Rightarrow> dflt | Some v \<Rightarrow> v)"

text \<open>\<open>__init__\<close>: the local descriptor, from the environment.\<close>

definition local_config :: "world \<Rightarrow> config" where
  "local_config w =
     \<lparr>host = Some (getenv w ''DB_HOST'' ''localhost''),
      port = getenv w ''DB_PORT'' ''5432'',
      database = getenv w ''DB_NAME'' ''ecommerce'',
      username = Some (getenv w ''DB_USERNAME'' ''postgres''),
      password = Some (getenv w ''DB_PASSWORD'' ''postgres'')\<rparr>"

definition test_connection :: "world \<Rightarrow> config \<Rightarrow> state \<Rightarrow> bool \<times> state" where
  "test_connection w cfg s =
     (let s1 = perform (PgConnect cfg) s in
      case pg_connect w (effects s) cfg of
        Some e \<Rightarrow> (False, print (ErrorText e) (print (ConnectFailed cfg) s1))
      | None \<Rightarrow>
          (let s2 = perform ConnClose s1 in
           case conn_close w (effects s1) of
             Some e \<Rightarrow> (False, print (ErrorText e) (print (ConnectFailed cfg) s2))
           | None \<Rightarrow> (True, print (ConnectOk cfg) s2)))"

text \<open>
  The argument list and the environment of a child process must be strings:
  \<open>subprocess.run\<close> raises \<open>TypeError\<close> on a \<open>None\<close> among them, before any process is
  started.
\<close>

fun popen_args :: "string option list \<Rightarrow> string list option" where
  "popen_args [] = Some []"
| "popen_args (None # xs) = None"
| "popen_args (Some x # xs) = (case popen_args xs of None \<Rightarrow> None | Some ys \<Rightarrow> Some (x # ys))"

definition dump_cmd :: "config \<Rightarrow> string \<Rightarrow> string option list" where
  "dump_cmd cfg backup_file =
     [Some ''pg_dump'', Some ''-h'', host cfg, Some ''-p'', Some (port cfg), Some ''-U'', username cfg,
      Some ''-d'', Some (database cfg), Some ''-Fc'', Some ''-f'', Some backup_file]"

definition restore_cmd :: "config \<Rightarrow> string \<Rightarrow> string option list" where
  "restore_cmd cfg backup_file =
     [Some ''pg_restore'', Some ''-h'', host cfg, Some ''-p'', Some (port cfg), Some ''-U'', username cfg,
      Some ''-d'', Some (database cfg), Some ''--clean'', Some ''--if-exists'', Some backup_file]"

text \<open>The name \<open>backup_database\<close> makes up when it is given none.\<close>

definition default_backup_file :: "config \<Rightarrow> datetime \<Rightarrow> string" where
  "default_backup_file cfg t = ''backup_'' @ database cfg @ ''_'' @ strftime t @ ''.dump''"

text \<open>
  \<open>backup_database\<close>, for the migrator whose local descriptor is \<open>cfg\<close>. The size of
  the file is read inside the \<open>try\<close>, so a \<open>FileNotFoundError\<close> of \<open>os.path.getsize\<close>
  reaches the handler written for a missing \<open>pg_dump\<close>. The handler catches nothing else:
  any other exception of \<open>subprocess.run\<close> or \<open>os.path.getsize\<close> leaves the method.
\<close>

definition backup_database :: "world \<Rightarrow> config \<Rightarrow> string option \<Rightarrow> state \<Rightarrow> (exn + string option) \<times> state" where
  "backup_database w cfg backup_file s =
     (let (file, s1) =
            (case backup_file of
               None \<Rightarrow> (default_backup_file cfg (clock w (effects s)), perform Now s)
             | Some f \<Rightarrow>
                 if f = [] then (default_backup_file cfg (clock w (effects s)), perform Now s)
                 else (f, s));
          s2 = print CreatingBackup s1
      in case (popen_args (dump_cmd cfg file), password cfg) of
           (Some cmd, Some pw) \<Rightarrow>
             (let s3 = perform (RunProcess cmd pw) s2 in
              case subprocess_run w (effects s2) cmd pw of
                Completed rc out err \<Rightarrow>
                  if rc = 0
                  then (let s4 = perform (GetSize file) (print (BackupCreated file) s3) in
                        case getsize w (effects s3) file of
                          Inr n \<Rightarrow> (Inr (Some file), print (FileSize n) s4)
                        | Inl FileNotFoundError \<Rightarrow> (Inr None, print PgDumpNotFound s4)
                        | Inl OtherOSError \<Rightarrow> (Inl OSError, s4))
                  else (Inr None, print (BackupFailed err) s3)
              | Raised FileNotFoundError \<Rightarrow> (Inr None, print PgDumpNotFound s3)
              | Raised OtherOSError \<Rightarrow> (Inl OSError, s3)
              | Undecodable rc \<Rightarrow> (Inl ValueError, s3))
         | _ \<Rightarrow> (Inl TypeError, s2))"

definition restore_database :: "world \<Rightarrow> string \<Rightarrow> config \<Rightarrow> state \<Rightarrow> (exn + bool) \<times> state" where
  "restore_database w backup_file target_config s =
     (let s1 = print (Restoring backup_file) s
      in case (popen_args (restore_cmd target_config backup_file), password target_config) of
           (Some cmd, Some pw) \<Rightarrow>
             (let s2 = perform (RunProcess cmd pw) s1 in
              case subprocess_run w (effects s1) cmd pw of
                Completed rc out err \<Rightarrow>
                  if rc = 0 then (Inr True, print RestoredOk s2)
                  else (Inr True, print (RestoreWarnings err) s2)
              | Raised FileNotFoundError \<Rightarrow> (Inr False, print PgRestoreNotFound s2)
              | Raised OtherOSError \<Rightarrow> (Inl OSError, s2)
              | Undecodable rc \<Rightarrow> (Inl ValueError, s2))
         | _ \<Rightarrow> (Inl TypeError, s1))"

text \<open>\<open>result[0] if result[0] else 0\<close>: \<open>None\<close>, zero and the empty string are falsy.\<close>

definition or_zero :: "sqlval \<Rightarrow> sqlval" where
  "or_zero v = (if v = SqlNull \<or> v = SqlInt 0 \<or> v = SqlText [] then SqlInt 0 else v)"

text \<open>
  \<open>get_database_info\<close>. Every step is inside one \<open>try\<close> whose handler prints the error
  and returns \<open>None\<close>.
\<close>

definition get_database_info :: "world \<Rightarrow> config \<Rightarrow> state \<Rightarrow> info option \<times> state" where
  "get_database_info w cfg s =
     (let s1 = perform (PgConnect cfg) s in
      case pg_connect w (effects s) cfg of
        Some e \<Rightarrow> (None, print (InfoError e) s1)
      | None \<Rightarrow>
     (let s2 = perform OpenCursor s1 in
      case conn_cursor w (effects s1) of
        Some e \<Rightarrow> (None, print (InfoError e) s2)
      | None \<Rightarrow>
     (let s3 = perform (Execute DatabaseSize) s2 in
      case cursor_fetch w (effects s2) DatabaseSize of
        Inl e \<Rightarrow> (None, print (InfoError e) s3)
      | Inr sz \<Rightarrow>
     (let s4 = perform (Execute TableCount) s3 in
      case cursor_fetch w (effects s3) TableCount of
        Inl e \<Rightarrow> (None, print (InfoError e) s4)
      | Inr table_count \<Rightarrow>
     (let s5 = perform (Execute RowCount) s4 in
      case cursor_fetch w (effects s4) RowCount of
        Inl e \<Rightarrow> (None, print (InfoError e) s5)
      | Inr r \<Rightarrow>
     (let s6 = perform ConnClose s5 in
      case conn_close w (effects s5) of
        Some e \<Rightarrow> (None, print (InfoError e) s6)
      | None \<Rightarrow>
          (Some \<lparr>size_info = sz, tables = table_count, rows = or_zero r\<rparr>, s6)))))))"

definition deploy_to_railway :: "state \<Rightarrow> state" where
  "deploy_to_railway s =
     s\<lparr>printed := printed s @
        [DeployingRailway,
         Hint ''1. Make sure Railway CLI is installed: npm install -g @railway/cli'',
         Hint ''2. Run: railway login'',
         Hint ''3. Run: railway init'',
         Hint ''4. Run: railway add postgresql'',
         Hint ''5. Get your DATABASE_URL: railway variables'',
         Hint ''6. Use the migrate command with your Railway DATABASE_URL'']\<rparr>"

definition deploy_to_heroku :: "state \<Rightarrow> state" where
  "deploy_to_heroku s =
     s\<lparr>printed := printed s @
        [DeployingHeroku,
         Hint ''1. Make sure Heroku CLI is installed'',
         Hint ''2. Run: heroku create your-app-name'',
         Hint ''3. Run: heroku addons:create heroku-postgresql:hobby-dev'',
         Hint ''4. Get your DATABASE_URL: heroku config:get DATABASE_URL'',
         Hint ''5. Use the migrate command with your Heroku DATABASE_URL'']\<rparr>"

section \<open>main\<close>

text \<open>
  The arguments after \<open>parse_args\<close>. The flags \<open>--target-host\<close>, \<open>--target-port\<close>,
  \<open>--target-db\<close>, \<open>--target-user\<close> and \<open>--target-password\<close> are parsed and never read.
\<close>

datatype action = Backup | Restore | Migrate | Info | Test | DeployRailway | DeployHeroku

record args =
  action :: action
  backup_file :: "string option"
  target_url :: "string option"

text \<open>
  The branch of \<open>main\<close> for \<open>migrate\<close>. The result is \<open>None\<close> when \<open>main\<close> returns and
  \<open>Some e\<close> when the exception \<open>e\<close> ends the run.
\<close>

definition main_migrate :: "world \<Rightarrow> args \<Rightarrow> state \<Rightarrow> exn option \<times> state" where
  "main_migrate w a s =
     (case target_url a of
        None \<Rightarrow> (None, print MigrateNeedsUrl s)
      | Some url \<Rightarrow>
          if url = [] then (None, print MigrateNeedsUrl s)
          else
            (let s1 = print StepTestingConnections (print StartingMigration s);
                 (ok_local, s2) = test_connection w (local_config w) s1
             in if \<not> ok_local then (None, print CannotConnectLocal s2)
                else
                  (case parse_database_url (urllib_tables w) url of
                     Inl e \<Rightarrow> (Some e, s2)
                   | Inr target_config \<Rightarrow>
                       (let (ok_target, s3) = test_connection w target_config s2
                        in if \<not> ok_target then (None, print CannotConnectTarget s3)
                           else
                             (case backup_database w (local_config w) None (print StepCreatingBackup s3) of
                                (Inl e, s4) \<Rightarrow> (Some e, s4)
                              | (Inr made, s4) \<Rightarrow>
                                  (case made of
                                     None \<Rightarrow> (None, print BackupFailedStop s4)
                                   | Some file \<Rightarrow>
                                       if file = [] then (None, print BackupFailedStop s4)
                                       else
                                         (case restore_database w file target_config (print StepRestoring s4) of
                                            (Inl e, s5) \<Rightarrow> (Some e, s5)
                                          | (Inr ok, s5) \<Rightarrow>
                                              if ok
                                              then (None, print (CanDeleteBackup file) (print MigrationCompleted s5))
                                              else (None, print MigrationFailedRestore s5))))))))"

definition main :: "world \<Rightarrow> args \<Rightarrow> state \<Rightarrow> exn option \<times> state" where
  "main w a s =
     (case action a of
        Backup \<Rightarrow>
          (case backup_database w (local_config w) (backup_file a) s of
             (Inl e, s1) \<Rightarrow> (Some e, s1)
           | (Inr made, s1) \<Rightarrow>
               if truthy made
               then (case get_database_info w (local_config w) s1 of
                       (None, s2) \<Rightarrow> (None, s2)
                     | (Some i, s2) \<Rightarrow> (None, print (DatabaseInfoLine i) s2))
               else (None, s1))
      | Info \<Rightarrow>
          (case get_database_info w (local_config w) (print LocalInfoHeader s) of
             (None, s1) \<Rightarrow> (None, s1)
           | (Some i, s1) \<Rightarrow>
               (None, print (InfoRows (rows i)) (print (InfoTables (tables i)) (print (InfoSize (size_info i)) s1))))
      | Test \<Rightarrow>
          (let (ok, s1) = test_connection w (local_config w) (print TestingLocal s) in
           case target_url a of
             None \<Rightarrow> (None, s1)
           | Some url \<Rightarrow>
               if url = [] then (None, s1)
               else (case parse_database_url (urllib_tables w) url of
                       Inl e \<Rightarrow> (Some e, print TestingTarget s1)
                     | Inr target_config \<Rightarrow>
                         (None, snd (test_connection w target_config (print TestingTarget s1)))))
      | Restore \<Rightarrow>
          if \<not> truthy (backup_file a) \<or> \<not> truthy (target_url a)
          then (None, print RestoreNeedsArgs s)
          else (case (backup_file a, target_url a) of
                  (Some file, Some url) \<Rightarrow>
                    (case parse_database_url (urllib_tables w) url of
                       Inl e \<Rightarrow> (Some e, s)
                     | Inr target_config \<Rightarrow>
                         (case restore_database w file target_config s of
                            (Inl e, s1) \<Rightarrow> (Some e, s1)
                          | (Inr ok, s1) \<Rightarrow> (None, s1)))
                | _ \<Rightarrow> (None, print RestoreNeedsArgs s))
      | Migrate \<Rightarrow> main_migrate w a s
      | DeployRailway \<Rightarrow> (None, deploy_to_railway s)
      | DeployHeroku \<Rightarrow> (None, deploy_to_heroku s))"

section \<open>Observing a run\<close>

text \<open>The command lines of the processes started, in order.\<close>

fun process_of :: "effect \<Rightarrow> string list option" where
  "process_of (RunProcess cmd pw) = Some cmd"
| "process_of _ = None"

definition processes :: "effect list \<Rightarrow> string list list" where
  "processes es = List.map_filter process_of es"

text \<open>
  The files that runs of \<open>pg_dump\<close> were told to write: the last argument of each
  command line that starts with \<open>pg_dump\<close>.
\<close>

fun dump_target :: "effect \<Rightarrow> string option" where
  "dump_target (RunProcess cmd pw) = (if take 1 cmd = [''pg_dump''] then Some (last cmd) else None)"
| "dump_target _ = None"

definition dump_targets :: "effect list \<Rightarrow> string list" where
  "dump_targets es = List.map_filter dump_target es"

section \<open>Worlds to run the script in\<close>

text \<open>
  A world with an empty environment and a fixed clock, in which every connection to the
  descriptor \<open>c\<close> answers \<open>conn c\<close>, every query \<open>q\<close> answers \<open>fetch q\<close>, every process
  with the command line \<open>cmd\<close> answers \<open>run cmd\<close> and the size of a file \<open>f\<close> is
  \<open>sz f\<close>. Its tables of \<open>urllib\<close> accept nothing.
\<close>

definition bare_urllib :: urllib where
  "bare_urllib = \<lparr>check_bracketed_host = (\<lambda>h. False), nfkc_safe = (\<lambda>n. False)\<rparr>"

definition noon :: datetime where
  "noon = \<lparr>year = 2024, month = 3, day = 9, hour = 12, minute = 0, second = 7, microsecond = 250000\<rparr>"

definition sim_world ::
  "(config \<Rightarrow> string option) \<Rightarrow> (sql_query \<Rightarrow> string + sqlval) \<Rightarrow> (string list \<Rightarrow> proc_result)
     \<Rightarrow> (string \<Rightarrow> os_error + nat) \<Rightarrow> world" where
  "sim_world conn fetch run sz =
     \<lparr>environ = (\<lambda>k. None),
      urllib_tables = bare_urllib,
      clock = (\<lambda>h. noon),
      pg_connect = (\<lambda>h. conn),
      conn_cursor = (\<lambda>h. None),
      cursor_fetch = (\<lambda>h. fetch),
      conn_close = (\<lambda>h. None),
      subprocess_run = (\<lambda>h cmd pw. run cmd),
      getsize = (\<lambda>h. sz)\<rparr>"

definition fresh :: state where
  "fresh = \<lparr>effects = [], printed = []\<rparr>"

text \<open>
  Four such worlds: one in which everything succeeds, one in which no database answers,
  one in which only the database on \<open>localhost\<close> answers, and one in which \<open>pg_dump\<close>
  exits with status zero and the file it was told to write is not there afterwards.
\<close>

definition calm_world :: world where
  "calm_world =
     sim_world (\<lambda>c. None) (\<lambda>q. Inr (SqlInt 3)) (\<lambda>cmd. Completed 0 [] []) (\<lambda>f. Inr 2048)"

definition offline_world :: world where
  "offline_world =
     sim_world (\<lambda>c. Some ''connection refused'') (\<lambda>q. Inr (SqlInt 3))
       (\<lambda>cmd. Completed 0 [] []) (\<lambda>f. Inr 2048)"

definition target_down_world :: world where
  "target_down_world =
     sim_world (\<lambda>c. if host c = Some ''localhost'' then None else Some ''connection refused'')
       (\<lambda>q. Inr (SqlInt 3)) (\<lambda>cmd. Completed 0 [] []) (\<lambda>f. Inr 2048)"

definition lost_artifact_world :: world where
  "lost_artifact_world =
     sim_world (\<lambda>c. None) (\<lambda>q. Inr (SqlInt 3)) (\<lambda>cmd. Completed 0 [] [])
       (\<lambda>f. Inl FileNotFoundError)"

text \<open>
  A world like the first one whose clock shows a time in the evening, and a world in which
  every process ends with status 1 and output that does not decode.
\<close>

definition evening :: datetime where
  "evening = \<lparr>year = 2025, month = 11, day = 30, hour = 17, minute = 8, second = 59, microsecond = 1\<rparr>"

definition evening_world :: world where
  "evening_world = calm_world\<lparr>clock := (\<lambda>h. evening)\<rparr>"

definition garbled_world :: world where
  "garbled_world =
     sim_world (\<lambda>c. None) (\<lambda>q. Inr (SqlInt 3)) (\<lambda>cmd. Undecodable 1) (\<lambda>f. Inr 2048)"

text \<open>The local descriptor of these worlds, whose environment is empty, and a target.\<close>

definition default_config :: config where
  "default_config =
     \<lparr>host = Some ''localhost'', port = ''5432'', database = ''ecommerce'',
      username = Some ''postgres'', password = Some ''postgres''\<rparr>"

definition remote_url :: string where
  "remote_url = ''postgresql://u:p@h:1234/dbname''"

definition remote_config :: config where
  "remote_config =
     \<lparr>host = Some ''h'', port = ''1234'', database = ''dbname'', username = Some ''u'',
      password = Some ''p''\<rparr>"

definition migrate_args :: args where
  "migrate_args = \<lparr>action = Migrate, backup_file = Some ''mine.dump'', target_url = Some remote_url\<rparr>"

section \<open>Facts about the string functions\<close>

lemmas char_tables = ascii_uppercase_def ascii_lowercase_def digits_def scheme_chars_def uses_params_def

lemmas url_defs = parse_database_url_def urlparse_def urlsplit_def split_scheme_def splitnetloc_def
  split_once_def splitparams_def checknetloc_def is_ascii_def ascii_alpha_def ascii_digit_def lower_def
  lower_char_def c0_control_or_space_def unsafe_url_byte_def port_of_def hostinfo_def userinfo_def
  hostname_of_def username_of_def password_of_def partition_str_def rpartition_str_def
  int_of_digits_def port_or_default_def lstrip_def str_nat.simps digit_char_def char_tables

lemma length_digits: "length digits = 10"
  by (simp add: digits_def)

lemma ascii_digit_digit_char: "d < 10 \<Longrightarrow> ascii_digit (digit_char d)"
  unfolding ascii_digit_def digit_char_def by (rule nth_mem) (simp add: length_digits)

lemma str_nat_digits: "list_all ascii_digit (str_nat n)"
proof (induction n rule: str_nat.induct)
  case (1 n)
  show ?case
  proof (cases "n < 10")
    case True
    then show ?thesis by (simp add: str_nat.simps [of n] ascii_digit_digit_char)
  next
    case False
    with "1" show ?thesis by (simp add: str_nat.simps [of n] ascii_digit_digit_char)
  qed
qed

lemma length_str_nat_1: "n < 10 \<Longrightarrow> length (str_nat n) = 1"
  by (simp add: str_nat.simps [of n])

lemma length_str_nat_2: "n < 100 \<Longrightarrow> length (str_nat n) \<le> 2"
  by (simp add: str_nat.simps [of n] length_str_nat_1)

lemma length_str_nat_3: "n < 1000 \<Longrightarrow> length (str_nat n) \<le> 3"
  using length_str_nat_2 [of "n div 10"] by (simp add: str_nat.simps [of n])

lemma length_str_nat_4: "n < 10000 \<Longrightarrow> length (str_nat n) \<le> 4"
  using length_str_nat_3 [of "n div 10"] by (simp add: str_nat.simps [of n])

lemma length_zfill: "length s \<le> k \<Longrightarrow> length (zfill k s) = k"
  by (simp add: zfill_def)

lemma ascii_digit_zero: "ascii_digit CHR ''0''"
  by (simp add: ascii_digit_def digits_def)

lemma zfill_digits: "list_all ascii_digit s \<Longrightarrow> list_all ascii_digit (zfill k s)"
  using ascii_digit_zero by (auto simp: zfill_def list_all_iff)

lemma str_nat_5432: "str_nat 5432 = ''5432''"
  by (simp add: str_nat.simps digit_char_def digits_def)

lemma lstrip_slash: "lstrip ''/'' s = dropWhile (\<lambda>x. x = CHR ''/'') s"
  by (simp add: lstrip_def)

lemma lstrip_slash_bare: "lstrip ''/'' s \<noteq> CHR ''/'' # r"
proof
  assume a: "lstrip ''/'' s = CHR ''/'' # r"
  then have "dropWhile (\<lambda>x. x = CHR ''/'') s \<noteq> []" by (simp add: lstrip_slash)
  then have "hd (dropWhile (\<lambda>x. x = CHR ''/'') s) \<noteq> CHR ''/''" by (rule hd_dropWhile)
  with a show False by (simp add: lstrip_slash)
qed

lemma lstrip_slash_one: "take 1 d \<noteq> ''/'' \<Longrightarrow> lstrip ''/'' (CHR ''/'' # d) = d"
  by (cases d) (auto simp: lstrip_slash)

lemma digit_char_0: "digit_char 0 = CHR ''0''"
  by (simp add: digit_char_def digits_def)

lemma str_nat_1: "n < 10 \<Longrightarrow> str_nat n = [digit_char n]"
  by (simp add: str_nat.simps [of n])

lemma str_nat_2:
  "10 \<le> n \<Longrightarrow> n < 100 \<Longrightarrow> str_nat n = [digit_char (n div 10), digit_char (n mod 10)]"
  by (simp add: str_nat.simps [of n] str_nat_1)

lemma str_nat_3:
  assumes "100 \<le> n" and "n < 1000"
  shows "str_nat n = [digit_char (n div 100), digit_char (n div 10 mod 10), digit_char (n mod 10)]"
proof -
  have "n div 10 div 10 = n div 100" by (simp add: div_mult2_eq [symmetric])
  with assms str_nat_2 [of "n div 10"] show ?thesis
    by (simp add: str_nat.simps [of n])
qed

lemma str_nat_4:
  assumes "1000 \<le> n" and "n < 10000"
  shows "str_nat n = [digit_char (n div 1000), digit_char (n div 100 mod 10),
                      digit_char (n div 10 mod 10), digit_char (n mod 10)]"
proof -
  have "n div 10 div 100 = n div 1000" "n div 10 div 10 = n div 100"
    by (simp_all add: div_mult2_eq [symmetric])
  with assms str_nat_3 [of "n div 10"] show ?thesis
    by (simp add: str_nat.simps [of n])
qed

lemma zfill_2_str_nat:
  assumes "n < 100"
  shows "zfill 2 (str_nat n) = [digit_char (n div 10), digit_char (n mod 10)]"
proof (cases "n < 10")
  case True
  then show ?thesis by (simp add: str_nat_1 zfill_def digit_char_0)
next
  case False
  with assms show ?thesis by (simp add: str_nat_2 zfill_def)
qed

lemma length_str_nat_year: "1000 \<le> n \<Longrightarrow> n < 10000 \<Longrightarrow> length (str_nat n) = 4"
  by (simp add: str_nat_4)









section \<open>The connection URL\<close>

lemma parse_database_url_Inr:
  "parse_database_url lib url = Inr c \<longleftrightarrow>
     (\<exists>parsed p. urlparse lib url = Inr parsed \<and> port_of parsed = Inr p \<and>
        c = \<lparr>host = hostname_of parsed, port = str_nat (port_or_default p),
             database = lstrip ''/'' (path parsed), username = username_of parsed,
             password = password_of parsed\<rparr>)"
  by (auto simp: parse_database_url_def split: sum.splits)





lemma port_of_omitted: "snd (hostinfo parsed) = None \<Longrightarrow> port_of parsed = Inr None"
  by (simp add: port_of_def)

lemma parse_example_full:
  "parse_database_url lib ''postgresql://u:p@h:1234/dbname'' =
     Inr \<lparr>host = Some ''h'', port = ''1234'', database = ''dbname'',
          username = Some ''u'', password = Some ''p''\<rparr>"
  by (simp add: url_defs)


lemma parse_example_bracket: "urlparse lib ''postgresql://[h/db'' = Inl ValueError"
  by (simp add: url_defs)















text \<open>
  C3. The URL \<open>postgresql://u:p@h:1234/dbname\<close> is parsed to the descriptor with host
  \<open>h\<close>, port \<open>1234\<close>, database \<open>dbname\<close>, user \<open>u\<close> and password \<open>p\<close>. Whenever a URL
  parses and carries no port, the port of the descriptor is \<open>5432\<close>. The database name
  is the path without its leading slashes: it never starts with a slash, and a path
  of one slash and a name gives the name.
\<close>

theorem parse_database_url_components:
  "parse_database_url lib ''postgresql://u:p@h:1234/dbname'' =
     Inr \<lparr>host = Some ''h'', port = ''1234'', database = ''dbname'',
          username = Some ''u'', password = Some ''p''\<rparr>
   \<and> (\<forall>url parsed. urlparse lib url = Inr parsed \<and> snd (hostinfo parsed) = None \<longrightarrow>
         (\<exists>c. parse_database_url lib url = Inr c \<and> port c = ''5432''))
   \<and> (\<forall>url c. parse_database_url lib url = Inr c \<longrightarrow>
         (\<exists>parsed. urlparse lib url = Inr parsed
            \<and> database c = dropWhile (\<lambda>x. x = CHR ''/'') (path parsed)
            \<and> (\<forall>r. database c \<noteq> CHR ''/'' # r)
            \<and> (\<forall>d. path parsed = CHR ''/'' # d \<and> take 1 d \<noteq> ''/'' \<longrightarrow> database c = d)))"
proof (intro conjI allI impI)
  show "parse_database_url lib ''postgresql://u:p@h:1234/dbname'' =
     Inr \<lparr>host = Some ''h'', port = ''1234'', database = ''dbname'',
          username = Some ''u'', password = Some ''p''\<rparr>"
    by (rule parse_example_full)
next
  fix url parsed
  assume "urlparse lib url = Inr parsed \<and> snd (hostinfo parsed) = None"
  then show "\<exists>c. parse_database_url lib url = Inr c \<and> port c = ''5432''"
    by (simp add: parse_database_url_Inr port_of_omitted port_or_default_def str_nat_5432)
next
  fix url c
  assume "parse_database_url lib url = Inr c"
  then obtain parsed where u: "urlparse lib url = Inr parsed"
    and d: "database c = lstrip ''/'' (path parsed)"
    by (auto simp: parse_database_url_Inr)
  show "\<exists>parsed. urlparse lib url = Inr parsed
            \<and> database c = dropWhile (\<lambda>x. x = CHR ''/'') (path parsed)
            \<and> (\<forall>r. database c \<noteq> CHR ''/'' # r)
            \<and> (\<forall>d. path parsed = CHR ''/'' # d \<and> take 1 d \<noteq> ''/'' \<longrightarrow> database c = d)"
    using u d by (auto simp: lstrip_slash_bare lstrip_slash_one simp del: take_Suc_Cons) (simp add: lstrip_slash)
qed

theorem parse_database_url_components_witness:
  "urlparse bare_urllib ''postgresql://u:p@h//dbname'' =
     Inr \<lparr>scheme = ''postgresql'', netloc = ''u:p@h'', path = ''//dbname'', params = [],
          query = [], fragment = []\<rparr>
   \<and> snd (hostinfo \<lparr>scheme = ''postgresql'', netloc = ''u:p@h'', path = ''//dbname'', params = [],
          query = [], fragment = []\<rparr>) = None
   \<and> (\<exists>c. parse_database_url bare_urllib ''postgresql://u:p@h//dbname'' = Inr c
          \<and> port c = ''5432'' \<and> database c = ''dbname'')"
proof -
  let ?url = "''postgresql://u:p@h//dbname''"
  let ?parsed = "\<lparr>scheme = ''postgresql'', netloc = ''u:p@h'', path = ''//dbname'', params = [],
          query = [], fragment = []\<rparr>"
  have u: "urlparse bare_urllib ?url = Inr ?parsed" by (simp add: url_defs)
  have h: "snd (hostinfo ?parsed) = None" by (simp add: url_defs)
  have "\<exists>c. parse_database_url bare_urllib ?url = Inr c \<and> port c = ''5432''"
    using parse_database_url_components
      [of bare_urllib, THEN conjunct2, THEN conjunct1, rule_format, of ?url ?parsed] u h
    by simp
  then obtain c where c: "parse_database_url bare_urllib ?url = Inr c" and p: "port c = ''5432''"
    by (elim exE conjE)
  have "\<exists>parsed. urlparse bare_urllib ?url = Inr parsed
            \<and> database c = dropWhile (\<lambda>x. x = CHR ''/'') (path parsed)
            \<and> (\<forall>r. database c \<noteq> CHR ''/'' # r)
            \<and> (\<forall>d. path parsed = CHR ''/'' # d \<and> take 1 d \<noteq> ''/'' \<longrightarrow> database c = d)"
    using parse_database_url_components
      [of bare_urllib, THEN conjunct2, THEN conjunct2, rule_format, of ?url c] c
    by simp
  then have "database c = dropWhile (\<lambda>x. x = CHR ''/'') (path ?parsed)"
    unfolding u by (elim exE conjE) simp
  then have "database c = ''dbname''" by simp
  with u h c p show ?thesis by simp
qed




section \<open>Facts about the methods\<close>

lemma effects_print [simp]: "effects (print m s) = effects s"
  by (simp add: print_def)

lemma printed_perform [simp]: "printed (perform e s) = printed s"
  by (simp add: perform_def)

lemma processes_append: "processes (xs @ ys) = processes xs @ processes ys"
  by (simp add: processes_def map_filter_def)

lemma dump_targets_append: "dump_targets (xs @ ys) = dump_targets xs @ dump_targets ys"
  by (simp add: dump_targets_def map_filter_def)

lemma processes_simps:
  "processes [] = []"
  "processes (RunProcess cmd pw # es) = cmd # processes es"
  "processes (PgConnect c # es) = processes es"
  "processes (OpenCursor # es) = processes es"
  "processes (Execute q # es) = processes es"
  "processes (ConnClose # es) = processes es"
  "processes (Now # es) = processes es"
  "processes (GetSize f # es) = processes es"
  by (simp_all add: processes_def map_filter_simps)

lemma dump_targets_simps:
  "dump_targets [] = []"
  "dump_targets (RunProcess cmd pw # es) =
     (if take 1 cmd = [''pg_dump''] then last cmd # dump_targets es else dump_targets es)"
  "dump_targets (PgConnect c # es) = dump_targets es"
  "dump_targets (OpenCursor # es) = dump_targets es"
  "dump_targets (Execute q # es) = dump_targets es"
  "dump_targets (ConnClose # es) = dump_targets es"
  "dump_targets (Now # es) = dump_targets es"
  "dump_targets (GetSize f # es) = dump_targets es"
  by (simp_all add: dump_targets_def map_filter_simps)

lemma test_connection_fails:
  assumes "\<not> fst (test_connection w c s)"
  shows "\<exists>es e. snd (test_connection w c s) =
            s\<lparr>effects := effects s @ es, printed := printed s @ [ConnectFailed c, ErrorText e]\<rparr>
          \<and> (es = [PgConnect c] \<or> es = [PgConnect c, ConnClose])"
  using assms
  by (auto simp: test_connection_def Let_def perform_def print_def split: option.splits)

lemma test_connection_succeeds:
  assumes "fst (test_connection w c s)"
  shows "snd (test_connection w c s) =
            s\<lparr>effects := effects s @ [PgConnect c, ConnClose], printed := printed s @ [ConnectOk c]\<rparr>"
  using assms
  by (auto simp: test_connection_def Let_def perform_def print_def split: option.splits)

lemma popen_args_dump_cmd:
  "popen_args (dump_cmd cfg f) = Some cmd \<longleftrightarrow>
     (\<exists>h u. host cfg = Some h \<and> username cfg = Some u \<and>
        cmd = [''pg_dump'', ''-h'', h, ''-p'', port cfg, ''-U'', u, ''-d'', database cfg, ''-Fc'', ''-f'', f])"
  by (cases "host cfg"; cases "username cfg") (auto simp: dump_cmd_def)


lemma backup_database_made:
  assumes "backup_database w cfg None s = (Inr (Some file), s')"
  shows "file = default_backup_file cfg (clock w (effects s)) \<and>
         (\<exists>cmd pw n. popen_args (dump_cmd cfg file) = Some cmd \<and> password cfg = Some pw
            \<and> s' = s\<lparr>effects := effects s @ [Now, RunProcess cmd pw, GetSize file],
                      printed := printed s @ [CreatingBackup, BackupCreated file, FileSize n]\<rparr>)"
  using assms
  by (auto simp: backup_database_def Let_def perform_def print_def
      split: option.splits proc_result.splits sum.splits os_error.splits if_splits)

lemma restore_database_ok:
  assumes "restore_database w file tc s = (Inr True, s')"
  shows "\<exists>cmd pw m. popen_args (restore_cmd tc file) = Some cmd \<and> password tc = Some pw
            \<and> s' = s\<lparr>effects := effects s @ [RunProcess cmd pw], printed := printed s @ [Restoring file, m]\<rparr>
            \<and> (m = RestoredOk \<or> (\<exists>err. m = RestoreWarnings err))"
  using assms
  by (auto simp: restore_database_def Let_def perform_def print_def
      split: option.splits proc_result.splits os_error.splits if_splits)



lemma backup_database_default_result:
  assumes "\<not> truthy bf" and "backup_database w cfg bf s = (Inr (Some f), s')"
  shows "f = default_backup_file cfg (clock w (effects s))"
  using assms
  by (cases bf)
     (auto simp: backup_database_def Let_def 
      split: option.splits proc_result.splits os_error.splits sum.splits if_splits)

lemma backup_database_default_targets_exact:
  assumes "\<not> truthy bf"
  shows "dump_targets (effects (snd (backup_database w cfg bf s))) =
           dump_targets (effects s) @
           (if host cfg = None \<or> username cfg = None \<or> password cfg = None then []
            else [default_backup_file cfg (clock w (effects s))])"
  using assms
  by (cases bf; cases "host cfg"; cases "username cfg"; cases "password cfg")
     (auto simp: backup_database_def Let_def perform_def print_def dump_targets_append dump_targets_simps
      dump_cmd_def
      split: proc_result.splits os_error.splits sum.splits)







lemma strftime_digits:
  assumes "valid_datetime t"
  shows "strftime t =
     [digit_char (year t div 1000), digit_char (year t div 100 mod 10),
      digit_char (year t div 10 mod 10), digit_char (year t mod 10),
      digit_char (month t div 10), digit_char (month t mod 10),
      digit_char (day t div 10), digit_char (day t mod 10),
      CHR ''_'',
      digit_char (hour t div 10), digit_char (hour t mod 10),
      digit_char (minute t div 10), digit_char (minute t mod 10),
      digit_char (second t div 10), digit_char (second t mod 10)]"
proof -
  from assms have "1000 \<le> year t" "year t < 10000" "month t < 100" "day t < 100" "hour t < 100"
    "minute t < 100" "second t < 100"
    by (simp_all add: valid_datetime_def)
  then show ?thesis
    by (simp add: strftime_def str_nat_4 zfill_2_str_nat)
qed

lemma strftime_format:
  assumes "valid_datetime t"
  shows "\<exists>Y m d H M S. strftime t = Y @ m @ d @ ''_'' @ H @ M @ S
           \<and> length Y = 4 \<and> length m = 2 \<and> length d = 2 \<and> length H = 2 \<and> length M = 2 \<and> length S = 2
           \<and> list_all ascii_digit (Y @ m @ d @ H @ M @ S)"
proof -
  from assms have b: "1000 \<le> year t" "year t < 10000" "month t < 100" "day t < 100" "hour t < 100"
    "minute t < 100" "second t < 100"
    by (simp_all add: valid_datetime_def)
  show ?thesis
    apply (rule exI [of _ "str_nat (year t)"])
    apply (rule exI [of _ "zfill 2 (str_nat (month t))"])
    apply (rule exI [of _ "zfill 2 (str_nat (day t))"])
    apply (rule exI [of _ "zfill 2 (str_nat (hour t))"])
    apply (rule exI [of _ "zfill 2 (str_nat (minute t))"])
    apply (rule exI [of _ "zfill 2 (str_nat (second t))"])
    using b
    by (simp add: strftime_def length_zfill length_str_nat_2 length_str_nat_year zfill_digits
        str_nat_digits)
qed

lemma strftime_same_second:
  "year t = year t' \<Longrightarrow> month t = month t' \<Longrightarrow> day t = day t' \<Longrightarrow> hour t = hour t' \<Longrightarrow>
   minute t = minute t' \<Longrightarrow> second t = second t' \<Longrightarrow> strftime t = strftime t'"
  unfolding strftime_def by simp

text \<open>
  What \<open>backup_database\<close> returns once \<open>pg_dump\<close> has been asked to run: the path when the
  status is zero and the size of the file can be read, nothing and the error stream when
  the status is not zero, nothing and the hint to install the tools when \<open>pg_dump\<close> is
  not found.
\<close>

lemma backup_database_results:
  assumes "popen_args (dump_cmd cfg f) = Some cmd" and "password cfg = Some pw" and "f \<noteq> []"
  shows "subprocess_run w (effects s) cmd pw = Completed 0 out err \<Longrightarrow>
           getsize w (effects s @ [RunProcess cmd pw]) f = Inr n \<Longrightarrow>
           backup_database w cfg (Some f) s =
             (Inr (Some f), s\<lparr>effects := effects s @ [RunProcess cmd pw, GetSize f],
                              printed := printed s @ [CreatingBackup, BackupCreated f, FileSize n]\<rparr>)"
    and "subprocess_run w (effects s) cmd pw = Completed rc out err \<Longrightarrow> rc \<noteq> 0 \<Longrightarrow>
           backup_database w cfg (Some f) s =
             (Inr None, s\<lparr>effects := effects s @ [RunProcess cmd pw],
                           printed := printed s @ [CreatingBackup, BackupFailed err]\<rparr>)"
    and "subprocess_run w (effects s) cmd pw = Raised FileNotFoundError \<Longrightarrow>
           backup_database w cfg (Some f) s =
             (Inr None, s\<lparr>effects := effects s @ [RunProcess cmd pw],
                           printed := printed s @ [CreatingBackup, PgDumpNotFound]\<rparr>)"
  using assms by (simp_all add: backup_database_def perform_def print_def)

section \<open>The worlds evaluated\<close>

lemma local_config_sim [simp]: "local_config (sim_world conn fetch run sz) = default_config"
  by (simp add: local_config_def getenv_def sim_world_def default_config_def)

lemma parse_remote_url [simp]: "parse_database_url lib remote_url = Inr remote_config"
  unfolding remote_url_def remote_config_def by (rule parse_example_full)

lemma migrate_args_fields:
  "action migrate_args = Migrate" "target_url migrate_args = Some remote_url" "remote_url \<noteq> []"
  by (simp_all add: migrate_args_def remote_url_def)

lemma sim_world_fields [simp]:
  "environ (sim_world conn fetch run sz) = (\<lambda>k. None)"
  "urllib_tables (sim_world conn fetch run sz) = bare_urllib"
  "clock (sim_world conn fetch run sz) h = noon"
  "pg_connect (sim_world conn fetch run sz) h = conn"
  "conn_cursor (sim_world conn fetch run sz) h = None"
  "cursor_fetch (sim_world conn fetch run sz) h = fetch"
  "conn_close (sim_world conn fetch run sz) h = None"
  "subprocess_run (sim_world conn fetch run sz) h cmd pw = run cmd"
  "getsize (sim_world conn fetch run sz) h = sz"
  by (simp_all add: sim_world_def)

lemmas sim_defs = calm_world_def offline_world_def target_down_world_def
  lost_artifact_world_def fresh_def test_connection_def perform_def print_def Let_def

lemma default_backup_file_noon:
  "default_backup_file default_config noon = ''backup_ecommerce_20240309_120007.dump''"
  by (simp add: default_backup_file_def default_config_def strftime_def noon_def zfill_def
      str_nat.simps digit_char_def digits_def)

lemma popen_args_dump_default:
  "popen_args (dump_cmd default_config f) =
     Some [''pg_dump'', ''-h'', ''localhost'', ''-p'', ''5432'', ''-U'', ''postgres'', ''-d'',
           ''ecommerce'', ''-Fc'', ''-f'', f]"
  by (simp add: dump_cmd_def default_config_def)

lemma popen_args_restore_remote:
  "popen_args (restore_cmd remote_config f) =
     Some [''pg_restore'', ''-h'', ''h'', ''-p'', ''1234'', ''-U'', ''u'', ''-d'', ''dbname'',
           ''--clean'', ''--if-exists'', f]"
  by (simp add: restore_cmd_def remote_config_def)

lemma password_fixtures [simp]:
  "password default_config = Some ''postgres''" "password remote_config = Some ''p''"
  by (simp_all add: default_config_def remote_config_def)

lemma valid_datetime_noon: "valid_datetime noon"
  by (simp add: valid_datetime_def noon_def)

lemma calm_backup_default:
  "backup_database calm_world default_config None fresh =
     (Inr (Some ''backup_ecommerce_20240309_120007.dump''),
      \<lparr>effects = [Now,
                  RunProcess [''pg_dump'', ''-h'', ''localhost'', ''-p'', ''5432'', ''-U'', ''postgres'',
                     ''-d'', ''ecommerce'', ''-Fc'', ''-f'', ''backup_ecommerce_20240309_120007.dump'']
                    ''postgres'',
                  GetSize ''backup_ecommerce_20240309_120007.dump''],
       printed = [CreatingBackup, BackupCreated ''backup_ecommerce_20240309_120007.dump'',
                  FileSize 2048]\<rparr>)"
  by (simp add: calm_world_def backup_database_def default_backup_file_noon popen_args_dump_default
      perform_def print_def fresh_def)

lemma later_backup_default:
  "backup_database (calm_world\<lparr>clock := \<lambda>h. noon\<lparr>microsecond := 900000\<rparr>\<rparr>) default_config (Some [])
      fresh =
     (Inr (Some ''backup_ecommerce_20240309_120007.dump''),
      \<lparr>effects = [Now,
                  RunProcess [''pg_dump'', ''-h'', ''localhost'', ''-p'', ''5432'', ''-U'', ''postgres'',
                     ''-d'', ''ecommerce'', ''-Fc'', ''-f'', ''backup_ecommerce_20240309_120007.dump'']
                    ''postgres'',
                  GetSize ''backup_ecommerce_20240309_120007.dump''],
       printed = [CreatingBackup, BackupCreated ''backup_ecommerce_20240309_120007.dump'',
                  FileSize 2048]\<rparr>)"
  by (simp add: calm_world_def sim_world_def backup_database_def dump_cmd_def Let_def
      perform_def print_def fresh_def default_backup_file_def default_config_def strftime_def noon_def
      zfill_def str_nat.simps digit_char_def digits_def)

lemma calm_migrate_run:
  "main calm_world (migrate_args\<lparr>backup_file := b\<rparr>) fresh =
     (None,
      \<lparr>effects = [PgConnect default_config, ConnClose, PgConnect remote_config, ConnClose, Now,
                  RunProcess [''pg_dump'', ''-h'', ''localhost'', ''-p'', ''5432'', ''-U'', ''postgres'',
                     ''-d'', ''ecommerce'', ''-Fc'', ''-f'', ''backup_ecommerce_20240309_120007.dump'']
                    ''postgres'',
                  GetSize ''backup_ecommerce_20240309_120007.dump'',
                  RunProcess [''pg_restore'', ''-h'', ''h'', ''-p'', ''1234'', ''-U'', ''u'', ''-d'',
                     ''dbname'', ''--clean'', ''--if-exists'', ''backup_ecommerce_20240309_120007.dump'']
                    ''p''],
       printed = [StartingMigration, StepTestingConnections, ConnectOk default_config,
                  ConnectOk remote_config, StepCreatingBackup, CreatingBackup,
                  BackupCreated ''backup_ecommerce_20240309_120007.dump'', FileSize 2048,
                  StepRestoring, Restoring ''backup_ecommerce_20240309_120007.dump'', RestoredOk,
                  MigrationCompleted, CanDeleteBackup ''backup_ecommerce_20240309_120007.dump'']\<rparr>)"
  using migrate_args_fields(3)
  by (simp add: main_def main_migrate_def migrate_args_def sim_defs
      backup_database_def restore_database_def default_backup_file_noon popen_args_dump_default
      popen_args_restore_remote)

lemma valid_datetime_evening: "valid_datetime evening"
  by (simp add: valid_datetime_def evening_def)

lemma evening_world_fields [simp]:
  "clock evening_world h = evening"
  "subprocess_run evening_world h cmd pw = Completed 0 [] []"
  "getsize evening_world h f = Inr 2048"
  "pg_connect evening_world h c = None"
  "conn_close evening_world h = None"
  "urllib_tables evening_world = bare_urllib"
  "local_config evening_world = default_config"
  by (simp_all add: evening_world_def calm_world_def local_config_def getenv_def default_config_def)

lemma default_backup_file_evening:
  "default_backup_file default_config evening = ''backup_ecommerce_20251130_170859.dump''"
  by (simp add: default_backup_file_def default_config_def strftime_def evening_def zfill_def
      str_nat.simps digit_char_def digits_def)

lemma evening_backup_default:
  "backup_database evening_world default_config None fresh =
     (Inr (Some ''backup_ecommerce_20251130_170859.dump''),
      \<lparr>effects = [Now,
                  RunProcess [''pg_dump'', ''-h'', ''localhost'', ''-p'', ''5432'', ''-U'', ''postgres'',
                     ''-d'', ''ecommerce'', ''-Fc'', ''-f'', ''backup_ecommerce_20251130_170859.dump'']
                    ''postgres'',
                  GetSize ''backup_ecommerce_20251130_170859.dump''],
       printed = [CreatingBackup, BackupCreated ''backup_ecommerce_20251130_170859.dump'',
                  FileSize 2048]\<rparr>)"
  by (simp add: backup_database_def default_backup_file_evening popen_args_dump_default
      perform_def print_def fresh_def)

section \<open>The migration\<close>

text \<open>
  C1. In a run of \<open>migrate\<close> with a target URL: when the probe of the local database
  fails, \<open>main\<close> returns after the message that the local database cannot be reached;
  the run has done nothing but the probe and has started no process, so \<open>pg_dump\<close> never
  ran. When the local probe succeeds, the URL parses and the probe of the target fails,
  \<open>main\<close> returns after the message that the target cannot be reached, again with no
  process started.
\<close>

theorem migrate_aborts_before_backup:
  assumes "action a = Migrate" and "target_url a = Some url" and "url \<noteq> []"
  shows
    "(\<not> fst (test_connection w (local_config w) (print StepTestingConnections (print StartingMigration s))) \<longrightarrow>
        (\<exists>es e. main w a s =
            (None, s\<lparr>effects := effects s @ es,
                      printed := printed s @ [StartingMigration, StepTestingConnections,
                         ConnectFailed (local_config w), ErrorText e, CannotConnectLocal]\<rparr>)
          \<and> (es = [PgConnect (local_config w)] \<or> es = [PgConnect (local_config w), ConnClose]))
        \<and> processes (effects (snd (main w a s))) = processes (effects s))
   \<and> (\<forall>s2 tc.
        test_connection w (local_config w) (print StepTestingConnections (print StartingMigration s)) = (True, s2)
        \<and> parse_database_url (urllib_tables w) url = Inr tc
        \<and> \<not> fst (test_connection w tc s2) \<longrightarrow>
        (\<exists>es e. main w a s =
            (None, s\<lparr>effects := effects s @ [PgConnect (local_config w), ConnClose] @ es,
                      printed := printed s @ [StartingMigration, StepTestingConnections,
                         ConnectOk (local_config w), ConnectFailed tc, ErrorText e, CannotConnectTarget]\<rparr>)
          \<and> (es = [PgConnect tc] \<or> es = [PgConnect tc, ConnClose]))
        \<and> processes (effects (snd (main w a s))) = processes (effects s))"
proof (intro conjI allI impI)
  let ?s1 = "print StepTestingConnections (print StartingMigration s)"
  assume f: "\<not> fst (test_connection w (local_config w) ?s1)"
  from test_connection_fails [OF f] obtain es e where
    st: "snd (test_connection w (local_config w) ?s1) =
           ?s1\<lparr>effects := effects ?s1 @ es,
                printed := printed ?s1 @ [ConnectFailed (local_config w), ErrorText e]\<rparr>"
    and es: "es = [PgConnect (local_config w)] \<or> es = [PgConnect (local_config w), ConnClose]"
    by blast
  have m: "main w a s = (None, print CannotConnectLocal (snd (test_connection w (local_config w) ?s1)))"
    using assms f by (simp add: main_def main_migrate_def Let_def case_prod_beta)
  have m': "main w a s =
            (None, s\<lparr>effects := effects s @ es,
                      printed := printed s @ [StartingMigration, StepTestingConnections,
                         ConnectFailed (local_config w), ErrorText e, CannotConnectLocal]\<rparr>)"
    unfolding m st by (simp add: print_def)
  show "\<exists>es e. main w a s =
            (None, s\<lparr>effects := effects s @ es,
                      printed := printed s @ [StartingMigration, StepTestingConnections,
                         ConnectFailed (local_config w), ErrorText e, CannotConnectLocal]\<rparr>)
          \<and> (es = [PgConnect (local_config w)] \<or> es = [PgConnect (local_config w), ConnClose])"
    using m' es by blast
  show "processes (effects (snd (main w a s))) = processes (effects s)"
    using es unfolding m' by (auto simp: processes_append processes_simps)
next
  fix s2 tc
  let ?s1 = "print StepTestingConnections (print StartingMigration s)"
  assume h: "test_connection w (local_config w) ?s1 = (True, s2)
        \<and> parse_database_url (urllib_tables w) url = Inr tc
        \<and> \<not> fst (test_connection w tc s2)"
  then have l: "fst (test_connection w (local_config w) ?s1)"
    and l2: "snd (test_connection w (local_config w) ?s1) = s2" by simp_all
  from test_connection_succeeds [OF l] l2 have s2:
    "s2 = ?s1\<lparr>effects := effects ?s1 @ [PgConnect (local_config w), ConnClose],
              printed := printed ?s1 @ [ConnectOk (local_config w)]\<rparr>" by simp
  from h have f: "\<not> fst (test_connection w tc s2)" by simp
  from test_connection_fails [OF f] obtain es e where
    st: "snd (test_connection w tc s2) =
           s2\<lparr>effects := effects s2 @ es, printed := printed s2 @ [ConnectFailed tc, ErrorText e]\<rparr>"
    and es: "es = [PgConnect tc] \<or> es = [PgConnect tc, ConnClose]"
    by blast
  have m: "main w a s = (None, print CannotConnectTarget (snd (test_connection w tc s2)))"
    using assms h by (simp add: main_def main_migrate_def Let_def case_prod_beta)
  have m': "main w a s =
            (None, s\<lparr>effects := effects s @ [PgConnect (local_config w), ConnClose] @ es,
                      printed := printed s @ [StartingMigration, StepTestingConnections,
                         ConnectOk (local_config w), ConnectFailed tc, ErrorText e, CannotConnectTarget]\<rparr>)"
    unfolding m st unfolding s2 by (simp add: print_def)
  show "\<exists>es e. main w a s =
            (None, s\<lparr>effects := effects s @ [PgConnect (local_config w), ConnClose] @ es,
                      printed := printed s @ [StartingMigration, StepTestingConnections,
                         ConnectOk (local_config w), ConnectFailed tc, ErrorText e, CannotConnectTarget]\<rparr>)
          \<and> (es = [PgConnect tc] \<or> es = [PgConnect tc, ConnClose])"
    using m' es by blast
  show "processes (effects (snd (main w a s))) = processes (effects s)"
    using es unfolding m' by (auto simp: processes_append processes_simps)
qed

theorem migrate_aborts_before_backup_witness:
  "\<not> fst (test_connection offline_world (local_config offline_world)
            (print StepTestingConnections (print StartingMigration fresh)))
   \<and> processes (effects (snd (main offline_world migrate_args fresh))) = []
   \<and> test_connection target_down_world (local_config target_down_world)
        (print StepTestingConnections (print StartingMigration fresh)) =
        (True, \<lparr>effects = [PgConnect default_config, ConnClose],
                printed = [StartingMigration, StepTestingConnections, ConnectOk default_config]\<rparr>)
   \<and> parse_database_url (urllib_tables target_down_world) remote_url = Inr remote_config
   \<and> \<not> fst (test_connection target_down_world remote_config
              \<lparr>effects = [PgConnect default_config, ConnClose],
               printed = [StartingMigration, StepTestingConnections, ConnectOk default_config]\<rparr>)
   \<and> processes (effects (snd (main target_down_world migrate_args fresh))) = []"
proof -
  let ?s2 = "\<lparr>effects = [PgConnect default_config, ConnClose],
               printed = [StartingMigration, StepTestingConnections, ConnectOk default_config]\<rparr>"
  have a: "\<not> fst (test_connection offline_world (local_config offline_world)
            (print StepTestingConnections (print StartingMigration fresh)))"
    by (simp add: sim_defs)
  have b: "test_connection target_down_world (local_config target_down_world)
        (print StepTestingConnections (print StartingMigration fresh)) = (True, ?s2)"
    by (simp add: sim_defs default_config_def)
  have c: "parse_database_url (urllib_tables target_down_world) remote_url = Inr remote_config"
    by (simp add: target_down_world_def)
  have d: "\<not> fst (test_connection target_down_world remote_config ?s2)"
    by (simp add: sim_defs remote_config_def)
  have "processes (effects (snd (main offline_world migrate_args fresh))) = processes (effects fresh)"
    using migrate_aborts_before_backup [OF migrate_args_fields, of offline_world fresh,
        THEN conjunct1, rule_format, OF a]
    by (elim conjE)
  then have 1: "processes (effects (snd (main offline_world migrate_args fresh))) = []"
    by (simp add: fresh_def processes_simps)
  have "processes (effects (snd (main target_down_world migrate_args fresh))) = processes (effects fresh)"
    using migrate_aborts_before_backup [OF migrate_args_fields, of target_down_world fresh,
        THEN conjunct2, rule_format, of ?s2 remote_config] b c d
    by simp
  then have 2: "processes (effects (snd (main target_down_world migrate_args fresh))) = []"
    by (simp add: fresh_def processes_simps)
  from a 1 b c d 2 show ?thesis by simp
qed

text \<open>
  C7. In a run of \<open>migrate\<close> in which both probes succeed, \<open>backup_database\<close> returns a
  file and \<open>restore_database\<close> returns \<open>True\<close>, \<open>main\<close> ends with the message that the
  migration is complete and the message that names the backup file as one that can now
  be deleted. The effects of the run are the two probes, the clock, \<open>pg_dump\<close>, the size of
  the file and \<open>pg_restore\<close>, and nothing else: the script itself never removes the file.
\<close>

theorem migrate_done_keeps_artifact:
  assumes "action a = Migrate" and "target_url a = Some url" and "url \<noteq> []"
    and l: "test_connection w (local_config w) (print StepTestingConnections (print StartingMigration s)) = (True, s2)"
    and p: "parse_database_url (urllib_tables w) url = Inr tc"
    and t: "test_connection w tc s2 = (True, s3)"
    and b: "backup_database w (local_config w) None (print StepCreatingBackup s3) = (Inr (Some file), s4)"
    and r: "restore_database w file tc (print StepRestoring s4) = (Inr True, s5)"
  shows "\<exists>dump lpw n restore tpw m.
           main w a s =
             (None, s\<lparr>effects := effects s @
                         [PgConnect (local_config w), ConnClose, PgConnect tc, ConnClose, Now,
                          RunProcess dump lpw, GetSize file, RunProcess restore tpw],
                       printed := printed s @
                         [StartingMigration, StepTestingConnections, ConnectOk (local_config w),
                          ConnectOk tc, StepCreatingBackup, CreatingBackup, BackupCreated file,
                          FileSize n, StepRestoring, Restoring file, m, MigrationCompleted,
                          CanDeleteBackup file]\<rparr>)
         \<and> popen_args (dump_cmd (local_config w) file) = Some dump
         \<and> popen_args (restore_cmd tc file) = Some restore
         \<and> (m = RestoredOk \<or> (\<exists>err. m = RestoreWarnings err))
         \<and> file = default_backup_file (local_config w)
              (clock w (effects s @ [PgConnect (local_config w), ConnClose, PgConnect tc, ConnClose]))"
proof -
  let ?s1 = "print StepTestingConnections (print StartingMigration s)"
  from l have "fst (test_connection w (local_config w) ?s1)"
    and "snd (test_connection w (local_config w) ?s1) = s2" by simp_all
  with test_connection_succeeds [of w "local_config w" ?s1] have s2:
    "s2 = ?s1\<lparr>effects := effects ?s1 @ [PgConnect (local_config w), ConnClose],
              printed := printed ?s1 @ [ConnectOk (local_config w)]\<rparr>" by simp
  from t have "fst (test_connection w tc s2)" and "snd (test_connection w tc s2) = s3" by simp_all
  with test_connection_succeeds [of w tc s2] have s3:
    "s3 = s2\<lparr>effects := effects s2 @ [PgConnect tc, ConnClose], printed := printed s2 @ [ConnectOk tc]\<rparr>"
    by simp
  let ?s3 = "print StepCreatingBackup s3"
  from backup_database_made [OF b] obtain dump lpw n where
    fl: "file = default_backup_file (local_config w) (clock w (effects ?s3))"
    and dump: "popen_args (dump_cmd (local_config w) file) = Some dump"
    and s4: "s4 = ?s3\<lparr>effects := effects ?s3 @ [Now, RunProcess dump lpw, GetSize file],
                      printed := printed ?s3 @ [CreatingBackup, BackupCreated file, FileSize n]\<rparr>"
    by blast
  let ?s4 = "print StepRestoring s4"
  from restore_database_ok [OF r] obtain restore tpw m where
    restore: "popen_args (restore_cmd tc file) = Some restore"
    and s5: "s5 = ?s4\<lparr>effects := effects ?s4 @ [RunProcess restore tpw],
                      printed := printed ?s4 @ [Restoring file, m]\<rparr>"
    and m: "m = RestoredOk \<or> (\<exists>err. m = RestoreWarnings err)"
    by blast
  from fl have nonempty: "file \<noteq> []" by (simp add: default_backup_file_def)
  have "main w a s = (None, print (CanDeleteBackup file) (print MigrationCompleted s5))"
    using assms nonempty by (simp add: main_def main_migrate_def)
  then have "main w a s =
             (None, s\<lparr>effects := effects s @
                         [PgConnect (local_config w), ConnClose, PgConnect tc, ConnClose, Now,
                          RunProcess dump lpw, GetSize file, RunProcess restore tpw],
                       printed := printed s @
                         [StartingMigration, StepTestingConnections, ConnectOk (local_config w),
                          ConnectOk tc, StepCreatingBackup, CreatingBackup, BackupCreated file,
                          FileSize n, StepRestoring, Restoring file, m, MigrationCompleted,
                          CanDeleteBackup file]\<rparr>)"
    unfolding s5 s4 s3 s2 by (simp add: print_def)
  moreover have "file = default_backup_file (local_config w)
              (clock w (effects s @ [PgConnect (local_config w), ConnClose, PgConnect tc, ConnClose]))"
    using fl unfolding s3 s2 by (simp add: print_def)
  ultimately show ?thesis using dump restore m by blast
qed

theorem migrate_done_keeps_artifact_witness:
  "backup_database calm_world (local_config calm_world) None
      \<lparr>effects = [PgConnect default_config, ConnClose, PgConnect remote_config, ConnClose],
       printed = [StartingMigration, StepTestingConnections, ConnectOk default_config,
                  ConnectOk remote_config, StepCreatingBackup]\<rparr> =
     (Inr (Some ''backup_ecommerce_20240309_120007.dump''),
      \<lparr>effects = [PgConnect default_config, ConnClose, PgConnect remote_config, ConnClose, Now,
                  RunProcess [''pg_dump'', ''-h'', ''localhost'', ''-p'', ''5432'', ''-U'', ''postgres'',
                     ''-d'', ''ecommerce'', ''-Fc'', ''-f'', ''backup_ecommerce_20240309_120007.dump'']
                    ''postgres'',
                  GetSize ''backup_ecommerce_20240309_120007.dump''],
       printed = [StartingMigration, StepTestingConnections, ConnectOk default_config,
                  ConnectOk remote_config, StepCreatingBackup, CreatingBackup,
                  BackupCreated ''backup_ecommerce_20240309_120007.dump'', FileSize 2048]\<rparr>)
   \<and> (\<exists>s'. main calm_world migrate_args fresh = (None, s')
          \<and> length (effects s') = 8
          \<and> last (printed s') = CanDeleteBackup ''backup_ecommerce_20240309_120007.dump'')"
proof -
  let ?F = "''backup_ecommerce_20240309_120007.dump''"
  let ?s2 = "\<lparr>effects = [PgConnect default_config, ConnClose],
               printed = [StartingMigration, StepTestingConnections, ConnectOk default_config]\<rparr>"
  let ?s3 = "\<lparr>effects = [PgConnect default_config, ConnClose, PgConnect remote_config, ConnClose],
               printed = [StartingMigration, StepTestingConnections, ConnectOk default_config,
                  ConnectOk remote_config]\<rparr>"
  let ?s4 = "\<lparr>effects = [PgConnect default_config, ConnClose, PgConnect remote_config, ConnClose, Now,
                  RunProcess [''pg_dump'', ''-h'', ''localhost'', ''-p'', ''5432'', ''-U'', ''postgres'',
                     ''-d'', ''ecommerce'', ''-Fc'', ''-f'', ?F] ''postgres'',
                  GetSize ?F],
       printed = [StartingMigration, StepTestingConnections, ConnectOk default_config,
                  ConnectOk remote_config, StepCreatingBackup, CreatingBackup,
                  BackupCreated ?F, FileSize 2048]\<rparr>"
  let ?s5 = "\<lparr>effects = [PgConnect default_config, ConnClose, PgConnect remote_config, ConnClose, Now,
                  RunProcess [''pg_dump'', ''-h'', ''localhost'', ''-p'', ''5432'', ''-U'', ''postgres'',
                     ''-d'', ''ecommerce'', ''-Fc'', ''-f'', ?F] ''postgres'',
                  GetSize ?F,
                  RunProcess [''pg_restore'', ''-h'', ''h'', ''-p'', ''1234'', ''-U'', ''u'', ''-d'',
                     ''dbname'', ''--clean'', ''--if-exists'', ?F] ''p''],
       printed = [StartingMigration, StepTestingConnections, ConnectOk default_config,
                  ConnectOk remote_config, StepCreatingBackup, CreatingBackup,
                  BackupCreated ?F, FileSize 2048, StepRestoring, Restoring ?F, RestoredOk]\<rparr>"
  have l: "test_connection calm_world (local_config calm_world)
             (print StepTestingConnections (print StartingMigration fresh)) = (True, ?s2)"
    by (simp add: sim_defs)
  have p: "parse_database_url (urllib_tables calm_world) remote_url = Inr remote_config"
    by simp
  have t: "test_connection calm_world remote_config ?s2 = (True, ?s3)"
    by (simp add: sim_defs)
  have b: "backup_database calm_world (local_config calm_world) None (print StepCreatingBackup ?s3) =
             (Inr (Some ?F), ?s4)"
    by (simp add: calm_world_def backup_database_def default_backup_file_noon popen_args_dump_default
        perform_def print_def)
  have r: "restore_database calm_world ?F remote_config (print StepRestoring ?s4) = (Inr True, ?s5)"
    by (simp add: calm_world_def restore_database_def popen_args_restore_remote perform_def print_def)
  have "\<exists>s'. main calm_world migrate_args fresh = (None, s')
          \<and> length (effects s') = 8 \<and> last (printed s') = CanDeleteBackup ?F"
    using migrate_done_keeps_artifact [OF migrate_args_fields l p t b r]
    by (elim exE conjE) (simp add: fresh_def)
  moreover from b have "backup_database calm_world (local_config calm_world) None
      \<lparr>effects = [PgConnect default_config, ConnClose, PgConnect remote_config, ConnClose],
       printed = [StartingMigration, StepTestingConnections, ConnectOk default_config,
                  ConnectOk remote_config, StepCreatingBackup]\<rparr> = (Inr (Some ?F), ?s4)"
    by (simp add: print_def)
  ultimately show ?thesis by simp
qed



section \<open>Restoring\<close>

text \<open>
  C2. When \<open>subprocess.run\<close> returns, \<open>restore_database\<close> returns \<open>True\<close> whatever the exit
  status is: a zero status prints the success message, any other status prints the error
  stream as warnings; these are the only runs in which it returns \<open>True\<close>. It returns
  \<open>False\<close> exactly when starting \<open>pg_restore\<close> raises \<open>FileNotFoundError\<close>. Nothing else is
  caught: output that does not decode, another error of the operating system and a
  \<open>None\<close> among the arguments or as the password end the call with an exception.
\<close>

theorem restore_database_lenient:
  "(\<forall>cmd pw rc out err.
       popen_args (restore_cmd tc f) = Some cmd \<and> password tc = Some pw
       \<and> subprocess_run w (effects s) cmd pw = Completed rc out err \<longrightarrow>
       restore_database w f tc s =
         (Inr True, s\<lparr>effects := effects s @ [RunProcess cmd pw],
                      printed := printed s @ [Restoring f, if rc = 0 then RestoredOk else RestoreWarnings err]\<rparr>))
   \<and> (fst (restore_database w f tc s) = Inr False \<longleftrightarrow>
        (\<exists>cmd pw. popen_args (restore_cmd tc f) = Some cmd \<and> password tc = Some pw
           \<and> subprocess_run w (effects s) cmd pw = Raised FileNotFoundError))
   \<and> (fst (restore_database w f tc s) = Inr True \<longleftrightarrow>
        (\<exists>cmd pw rc out err. popen_args (restore_cmd tc f) = Some cmd \<and> password tc = Some pw
           \<and> subprocess_run w (effects s) cmd pw = Completed rc out err))
   \<and> (\<forall>cmd pw rc.
       popen_args (restore_cmd tc f) = Some cmd \<and> password tc = Some pw
       \<and> subprocess_run w (effects s) cmd pw = Undecodable rc \<longrightarrow>
       restore_database w f tc s =
         (Inl ValueError, s\<lparr>effects := effects s @ [RunProcess cmd pw],
                            printed := printed s @ [Restoring f]\<rparr>))
   \<and> (\<forall>cmd pw.
       popen_args (restore_cmd tc f) = Some cmd \<and> password tc = Some pw
       \<and> subprocess_run w (effects s) cmd pw = Raised OtherOSError \<longrightarrow>
       restore_database w f tc s =
         (Inl OSError, s\<lparr>effects := effects s @ [RunProcess cmd pw],
                          printed := printed s @ [Restoring f]\<rparr>))
   \<and> (popen_args (restore_cmd tc f) = None \<or> password tc = None \<longrightarrow>
       restore_database w f tc s = (Inl TypeError, s\<lparr>printed := printed s @ [Restoring f]\<rparr>))"
  by (auto simp: restore_database_def Let_def perform_def print_def
      split: option.splits proc_result.splits os_error.splits)

theorem restore_database_lenient_witness:
  "restore_database
      (sim_world (\<lambda>c. None) (\<lambda>q. Inr SqlNull) (\<lambda>cmd. Completed 1 [] ''pg_restore: warning'')
         (\<lambda>f. Inr 0))
      ''b.dump'' remote_config fresh =
     (Inr True,
      \<lparr>effects = [RunProcess [''pg_restore'', ''-h'', ''h'', ''-p'', ''1234'', ''-U'', ''u'', ''-d'',
                     ''dbname'', ''--clean'', ''--if-exists'', ''b.dump''] ''p''],
       printed = [Restoring ''b.dump'', RestoreWarnings ''pg_restore: warning'']\<rparr>)
   \<and> fst (restore_database
            (sim_world (\<lambda>c. None) (\<lambda>q. Inr SqlNull) (\<lambda>cmd. Raised FileNotFoundError) (\<lambda>f. Inr 0))
            ''b.dump'' remote_config fresh) = Inr False
   \<and> restore_database garbled_world ''b.dump'' remote_config fresh =
     (Inl ValueError,
      \<lparr>effects = [RunProcess [''pg_restore'', ''-h'', ''h'', ''-p'', ''1234'', ''-U'', ''u'', ''-d'',
                     ''dbname'', ''--clean'', ''--if-exists'', ''b.dump''] ''p''],
       printed = [Restoring ''b.dump'']\<rparr>)
   \<and> restore_database calm_world ''b.dump'' (remote_config\<lparr>password := None\<rparr>) fresh =
     (Inl TypeError, \<lparr>effects = [], printed = [Restoring ''b.dump'']\<rparr>)"
proof -
  let ?warn = "sim_world (\<lambda>c. None) (\<lambda>q. Inr SqlNull) (\<lambda>cmd. Completed 1 [] ''pg_restore: warning'')
         (\<lambda>f. Inr 0)"
  let ?gone = "sim_world (\<lambda>c. None) (\<lambda>q. Inr SqlNull) (\<lambda>cmd. Raised FileNotFoundError) (\<lambda>f. Inr 0)"
  let ?cmd = "[''pg_restore'', ''-h'', ''h'', ''-p'', ''1234'', ''-U'', ''u'', ''-d'',
                     ''dbname'', ''--clean'', ''--if-exists'', ''b.dump'']"
  have 1: "restore_database ?warn ''b.dump'' remote_config fresh =
     (Inr True, fresh\<lparr>effects := effects fresh @ [RunProcess ?cmd ''p''],
                      printed := printed fresh @ [Restoring ''b.dump'',
                         if (1::int) = 0 then RestoredOk else RestoreWarnings ''pg_restore: warning'']\<rparr>)"
    using restore_database_lenient [of remote_config "''b.dump''" ?warn fresh, THEN conjunct1,
        rule_format, of ?cmd "''p''" 1 "[]" "''pg_restore: warning''"]
    by (simp add: popen_args_restore_remote)
  have 2: "fst (restore_database ?gone ''b.dump'' remote_config fresh) = Inr False"
    using restore_database_lenient [of remote_config "''b.dump''" ?gone fresh, THEN conjunct2,
        THEN conjunct1]
    by (simp add: popen_args_restore_remote)
  have 3: "restore_database garbled_world ''b.dump'' remote_config fresh =
     (Inl ValueError, fresh\<lparr>effects := effects fresh @ [RunProcess ?cmd ''p''],
                            printed := printed fresh @ [Restoring ''b.dump'']\<rparr>)"
    using restore_database_lenient [of remote_config "''b.dump''" garbled_world fresh, THEN conjunct2,
        THEN conjunct2, THEN conjunct2, THEN conjunct1, rule_format, of ?cmd "''p''" 1]
    by (simp add: popen_args_restore_remote garbled_world_def)
  have 4: "restore_database calm_world ''b.dump'' (remote_config\<lparr>password := None\<rparr>) fresh =
     (Inl TypeError, fresh\<lparr>printed := printed fresh @ [Restoring ''b.dump'']\<rparr>)"
    using restore_database_lenient [of "remote_config\<lparr>password := None\<rparr>" "''b.dump''" calm_world fresh,
        THEN conjunct2, THEN conjunct2, THEN conjunct2, THEN conjunct2, THEN conjunct2]
    by simp
  from 1 2 3 4 show ?thesis by (simp add: fresh_def)
qed

text \<open>
  So \<open>pg_restore\<close> can be there and end with a status that is not zero, and
  \<open>restore_database\<close> still reports nothing: in the world whose processes end with status 1
  and output that does not decode, the call raises.
\<close>

theorem restore_database_undecodable_counterexample:
  "subprocess_run garbled_world (effects fresh)
      [''pg_restore'', ''-h'', ''h'', ''-p'', ''1234'', ''-U'', ''u'', ''-d'', ''dbname'', ''--clean'',
       ''--if-exists'', ''b.dump''] ''p'' = Undecodable 1
   \<and> restore_database garbled_world ''b.dump'' remote_config fresh =
     (Inl ValueError,
      \<lparr>effects = [RunProcess [''pg_restore'', ''-h'', ''h'', ''-p'', ''1234'', ''-U'', ''u'', ''-d'',
                     ''dbname'', ''--clean'', ''--if-exists'', ''b.dump''] ''p''],
       printed = [Restoring ''b.dump'']\<rparr>)
   \<and> fst (restore_database garbled_world ''b.dump'' remote_config fresh) \<noteq> Inr True"
  by (simp add: garbled_world_def restore_database_def popen_args_restore_remote perform_def print_def
      fresh_def)

text \<open>
  C8. The action \<open>restore\<close> without a backup file or without a target URL prints that both
  are required and returns: the state is the old one with this one message added, so no
  process was started and nothing else was done.
\<close>

theorem restore_requires_both_flags:
  assumes "action a = Restore" and "\<not> truthy (backup_file a) \<or> \<not> truthy (target_url a)"
  shows "main w a s = (None, s\<lparr>printed := printed s @ [RestoreNeedsArgs]\<rparr>)
         \<and> effects (snd (main w a s)) = effects s"
  using assms by (auto simp: main_def print_def)

theorem restore_requires_both_flags_witness:
  "\<not> truthy (target_url \<lparr>action = Restore, backup_file = Some ''b.dump'', target_url = None\<rparr>)
   \<and> main calm_world \<lparr>action = Restore, backup_file = Some ''b.dump'', target_url = None\<rparr> fresh =
       (None, \<lparr>effects = [], printed = [RestoreNeedsArgs]\<rparr>)"
  using restore_requires_both_flags
    [of "\<lparr>action = Restore, backup_file = Some ''b.dump'', target_url = None\<rparr>" calm_world fresh]
  by (simp add: fresh_def)

section \<open>Backing up\<close>

text \<open>
  C5. \<open>backup_database\<close> is to return the path whenever \<open>pg_dump\<close> exits with status
  zero. It does not in the world below, where \<open>pg_dump\<close> exits with status zero and
  \<open>os.path.getsize\<close> then raises \<open>FileNotFoundError\<close>: the script prints that the
  backup was created, then that \<open>pg_dump\<close> was not found, and returns \<open>None\<close>.
\<close>

theorem backup_database_lost_artifact:
  "backup_database lost_artifact_world (local_config lost_artifact_world) (Some ''out.dump'') fresh =
     (Inr None,
      \<lparr>effects = [RunProcess [''pg_dump'', ''-h'', ''localhost'', ''-p'', ''5432'', ''-U'', ''postgres'',
                     ''-d'', ''ecommerce'', ''-Fc'', ''-f'', ''out.dump''] ''postgres'',
                  GetSize ''out.dump''],
       printed = [CreatingBackup, BackupCreated ''out.dump'', PgDumpNotFound]\<rparr>)"
  by (simp add: lost_artifact_world_def backup_database_def popen_args_dump_default
      perform_def print_def fresh_def)

text \<open>
  C6. Given no file name (\<open>None\<close> or the empty string), \<open>backup_database\<close> uses the name
  \<open>backup_\<close>, the database name, \<open>_\<close>, the time and \<open>.dump\<close>: that is the path it
  returns and the file \<open>pg_dump\<close> is told to write. For a valid time the time is the four
  digits of the year, the two of the month and of the day, an underscore, and the two
  digits each of the hour (of 24), the minute and the second that the clock shows. Two
  calls for the same database name whose clocks agree down to the second return the same
  path.
\<close>

theorem backup_database_default_name:
  assumes "\<not> truthy bf"
  shows "(\<forall>f r. backup_database w cfg bf s = (Inr (Some f), r) \<longrightarrow>
            f = ''backup_'' @ database cfg @ ''_'' @ strftime (clock w (effects s)) @ ''.dump'')
       \<and> dump_targets (effects (snd (backup_database w cfg bf s))) =
           dump_targets (effects s) @
           (if host cfg = None \<or> username cfg = None \<or> password cfg = None then []
            else [''backup_'' @ database cfg @ ''_'' @ strftime (clock w (effects s)) @ ''.dump''])
       \<and> (\<forall>t. t = clock w (effects s) \<and> valid_datetime t \<longrightarrow>
            strftime (clock w (effects s)) =
              [digit_char (year t div 1000), digit_char (year t div 100 mod 10),
               digit_char (year t div 10 mod 10), digit_char (year t mod 10),
               digit_char (month t div 10), digit_char (month t mod 10),
               digit_char (day t div 10), digit_char (day t mod 10),
               CHR ''_'',
               digit_char (hour t div 10), digit_char (hour t mod 10),
               digit_char (minute t div 10), digit_char (minute t mod 10),
               digit_char (second t div 10), digit_char (second t mod 10)])
       \<and> (valid_datetime (clock w (effects s)) \<longrightarrow>
            (\<exists>Y m d H M S. strftime (clock w (effects s)) = Y @ m @ d @ ''_'' @ H @ M @ S
               \<and> length Y = 4 \<and> length m = 2 \<and> length d = 2
               \<and> length H = 2 \<and> length M = 2 \<and> length S = 2
               \<and> list_all ascii_digit (Y @ m @ d @ H @ M @ S)))
       \<and> (\<forall>w' cfg' bf' s' f f' r r'.
            \<not> truthy bf' \<and> database cfg' = database cfg
            \<and> year (clock w' (effects s')) = year (clock w (effects s))
            \<and> month (clock w' (effects s')) = month (clock w (effects s))
            \<and> day (clock w' (effects s')) = day (clock w (effects s))
            \<and> hour (clock w' (effects s')) = hour (clock w (effects s))
            \<and> minute (clock w' (effects s')) = minute (clock w (effects s))
            \<and> second (clock w' (effects s')) = second (clock w (effects s))
            \<and> backup_database w cfg bf s = (Inr (Some f), r)
            \<and> backup_database w' cfg' bf' s' = (Inr (Some f'), r') \<longrightarrow> f' = f)"
proof (intro conjI allI impI)
  fix f r
  assume "backup_database w cfg bf s = (Inr (Some f), r)"
  with assms have "f = default_backup_file cfg (clock w (effects s))"
    by (rule backup_database_default_result)
  then show "f = ''backup_'' @ database cfg @ ''_'' @ strftime (clock w (effects s)) @ ''.dump''"
    by (simp add: default_backup_file_def)
next
  show "dump_targets (effects (snd (backup_database w cfg bf s))) =
           dump_targets (effects s) @
           (if host cfg = None \<or> username cfg = None \<or> password cfg = None then []
            else [''backup_'' @ database cfg @ ''_'' @ strftime (clock w (effects s)) @ ''.dump''])"
    using backup_database_default_targets_exact [OF assms, of w cfg s]
    by (simp add: default_backup_file_def)
next
  fix t
  assume a: "t = clock w (effects s) \<and> valid_datetime t"
  then have v: "valid_datetime t" by (elim conjE)
  from a have t: "clock w (effects s) = t" by (elim conjE) (rule sym)
  show "strftime (clock w (effects s)) =
              [digit_char (year t div 1000), digit_char (year t div 100 mod 10),
               digit_char (year t div 10 mod 10), digit_char (year t mod 10),
               digit_char (month t div 10), digit_char (month t mod 10),
               digit_char (day t div 10), digit_char (day t mod 10),
               CHR ''_'',
               digit_char (hour t div 10), digit_char (hour t mod 10),
               digit_char (minute t div 10), digit_char (minute t mod 10),
               digit_char (second t div 10), digit_char (second t mod 10)]"
    unfolding t using v by (rule strftime_digits)
next
  assume "valid_datetime (clock w (effects s))"
  then show "\<exists>Y m d H M S. strftime (clock w (effects s)) = Y @ m @ d @ ''_'' @ H @ M @ S
               \<and> length Y = 4 \<and> length m = 2 \<and> length d = 2
               \<and> length H = 2 \<and> length M = 2 \<and> length S = 2
               \<and> list_all ascii_digit (Y @ m @ d @ H @ M @ S)"
    by (rule strftime_format)
next
  fix w' cfg' bf' s' f f' r r'
  assume h: "\<not> truthy bf' \<and> database cfg' = database cfg
            \<and> year (clock w' (effects s')) = year (clock w (effects s))
            \<and> month (clock w' (effects s')) = month (clock w (effects s))
            \<and> day (clock w' (effects s')) = day (clock w (effects s))
            \<and> hour (clock w' (effects s')) = hour (clock w (effects s))
            \<and> minute (clock w' (effects s')) = minute (clock w (effects s))
            \<and> second (clock w' (effects s')) = second (clock w (effects s))
            \<and> backup_database w cfg bf s = (Inr (Some f), r)
            \<and> backup_database w' cfg' bf' s' = (Inr (Some f'), r')"
  then have 1: "f = default_backup_file cfg (clock w (effects s))"
    using assms backup_database_default_result by blast
  from h have 2: "f' = default_backup_file cfg' (clock w' (effects s'))"
    using backup_database_default_result by blast
  from h have "strftime (clock w' (effects s')) = strftime (clock w (effects s))"
    by (intro strftime_same_second) simp_all
  with h 1 2 show "f' = f" by (simp add: default_backup_file_def)
qed

theorem backup_database_default_name_witness:
  "\<not> truthy None \<and> \<not> truthy (Some [])
   \<and> valid_datetime (clock evening_world (effects fresh))
   \<and> clock evening_world (effects fresh) =
       \<lparr>year = 2025, month = 11, day = 30, hour = 17, minute = 8, second = 59, microsecond = 1\<rparr>
   \<and> strftime (clock evening_world (effects fresh)) = ''20251130_170859''
   \<and> (\<exists>r. backup_database evening_world default_config None fresh =
             (Inr (Some ''backup_ecommerce_20251130_170859.dump''), r))
   \<and> dump_targets (effects (snd (backup_database evening_world default_config None fresh))) =
       [''backup_ecommerce_20251130_170859.dump'']
   \<and> (\<exists>r. backup_database calm_world default_config None fresh =
             (Inr (Some ''backup_ecommerce_20240309_120007.dump''), r))
   \<and> (\<exists>r. backup_database (calm_world\<lparr>clock := \<lambda>h. noon\<lparr>microsecond := 900000\<rparr>\<rparr>) default_config
             (Some []) fresh =
             (Inr (Some ''backup_ecommerce_20240309_120007.dump''), r))"
proof -
  let ?E = "''backup_ecommerce_20251130_170859.dump''"
  let ?F = "''backup_ecommerce_20240309_120007.dump''"
  let ?later = "calm_world\<lparr>clock := \<lambda>h. noon\<lparr>microsecond := 900000\<rparr>\<rparr>"
  let ?r = "\<lparr>effects = [Now,
                  RunProcess [''pg_dump'', ''-h'', ''localhost'', ''-p'', ''5432'', ''-U'', ''postgres'',
                     ''-d'', ''ecommerce'', ''-Fc'', ''-f'', ?F] ''postgres'',
                  GetSize ?F],
       printed = [CreatingBackup, BackupCreated ?F, FileSize 2048]\<rparr>"
  have n: "\<not> truthy None" by simp
  have e: "\<not> truthy (Some [])" by simp
  have v: "valid_datetime (clock evening_world (effects fresh))"
    by (simp add: valid_datetime_evening)
  have c: "clock evening_world (effects fresh) =
       \<lparr>year = 2025, month = 11, day = 30, hour = 17, minute = 8, second = 59, microsecond = 1\<rparr>"
    by (simp add: evening_def)
  have "strftime (clock evening_world (effects fresh)) =
          [digit_char (year evening div 1000), digit_char (year evening div 100 mod 10),
           digit_char (year evening div 10 mod 10), digit_char (year evening mod 10),
           digit_char (month evening div 10), digit_char (month evening mod 10),
           digit_char (day evening div 10), digit_char (day evening mod 10),
           CHR ''_'',
           digit_char (hour evening div 10), digit_char (hour evening mod 10),
           digit_char (minute evening div 10), digit_char (minute evening mod 10),
           digit_char (second evening div 10), digit_char (second evening mod 10)]"
    using backup_database_default_name [OF n, of evening_world default_config fresh,
        THEN conjunct2, THEN conjunct2, THEN conjunct1, rule_format, of evening]
      valid_datetime_evening
    by simp
  then have t: "strftime (clock evening_world (effects fresh)) = ''20251130_170859''"
    by (simp add: evening_def digit_char_def digits_def)
  have "?E = ''backup_'' @ database default_config @ ''_''
               @ strftime (clock evening_world (effects fresh)) @ ''.dump''"
    using backup_database_default_name [OF n, of evening_world default_config fresh, THEN conjunct1,
        rule_format, OF evening_backup_default] .
  have d: "dump_targets (effects (snd (backup_database evening_world default_config None fresh))) =
             [''backup_'' @ database default_config @ ''_''
               @ strftime (clock evening_world (effects fresh)) @ ''.dump'']"
    using backup_database_default_name [OF n, of evening_world default_config fresh,
        THEN conjunct2, THEN conjunct1]
    by (simp add: fresh_def default_config_def dump_targets_simps)
  have d': "dump_targets (effects (snd (backup_database evening_world default_config None fresh))) = [?E]"
    unfolding d t by (simp add: default_config_def)
  have 2: "?F = ?F"
    using backup_database_default_name [OF n, of calm_world default_config fresh, THEN conjunct2,
        THEN conjunct2, THEN conjunct2, THEN conjunct2, rule_format,
        where w' = ?later and cfg' = default_config and bf' = "Some []" and s' = fresh
          and f = ?F and f' = ?F and r = ?r and r' = ?r]
      e calm_backup_default later_backup_default
    by (simp add: calm_world_def noon_def)
  from n e v c t evening_backup_default d' calm_backup_default later_backup_default 2 show ?thesis
    by simp
qed

section \<open>Reporting\<close>

text \<open>
  C9. When one of the three queries of \<open>get_database_info\<close> fails, the result is \<open>None\<close>
  and one error message is printed. A result that is not \<open>None\<close> holds the answers of all
  three queries (the row count with zero for an empty answer), and nothing was printed.
\<close>

theorem get_database_info_all_or_nothing:
  "(\<forall>e. cursor_fetch w (effects s @ [PgConnect cfg, OpenCursor]) DatabaseSize = Inl e
        \<or> cursor_fetch w (effects s @ [PgConnect cfg, OpenCursor, Execute DatabaseSize]) TableCount = Inl e
        \<or> cursor_fetch w (effects s @ [PgConnect cfg, OpenCursor, Execute DatabaseSize, Execute TableCount]) RowCount = Inl e
        \<longrightarrow> fst (get_database_info w cfg s) = None
            \<and> (\<exists>e'. printed (snd (get_database_info w cfg s)) = printed s @ [InfoError e']))
   \<and> (\<forall>i s'. get_database_info w cfg s = (Some i, s') \<longrightarrow>
        cursor_fetch w (effects s @ [PgConnect cfg, OpenCursor]) DatabaseSize = Inr (size_info i)
        \<and> cursor_fetch w (effects s @ [PgConnect cfg, OpenCursor, Execute DatabaseSize]) TableCount = Inr (tables i)
        \<and> (\<exists>r. cursor_fetch w (effects s @ [PgConnect cfg, OpenCursor, Execute DatabaseSize, Execute TableCount]) RowCount = Inr r
              \<and> rows i = or_zero r)
        \<and> printed s' = printed s)"
  by (auto simp: get_database_info_def Let_def perform_def print_def
      split: option.splits sum.splits)

theorem get_database_info_all_or_nothing_witness:
  "cursor_fetch (sim_world (\<lambda>c. None)
        (\<lambda>q. if q = TableCount then Inl ''permission denied'' else Inr (SqlInt 3))
        (\<lambda>cmd. Completed 0 [] []) (\<lambda>f. Inr 0))
      (effects fresh @ [PgConnect default_config, OpenCursor, Execute DatabaseSize]) TableCount =
     Inl ''permission denied''
   \<and> fst (get_database_info (sim_world (\<lambda>c. None)
        (\<lambda>q. if q = TableCount then Inl ''permission denied'' else Inr (SqlInt 3))
        (\<lambda>cmd. Completed 0 [] []) (\<lambda>f. Inr 0)) default_config fresh) = None
   \<and> get_database_info calm_world default_config fresh =
       (Some \<lparr>size_info = SqlInt 3, tables = SqlInt 3, rows = SqlInt 3\<rparr>,
        \<lparr>effects = [PgConnect default_config, OpenCursor, Execute DatabaseSize, Execute TableCount,
                    Execute RowCount, ConnClose],
         printed = []\<rparr>)
   \<and> cursor_fetch calm_world (effects fresh @ [PgConnect default_config, OpenCursor]) DatabaseSize =
       Inr (SqlInt 3)"
proof -
  let ?w = "sim_world (\<lambda>c. None)
        (\<lambda>q. if q = TableCount then Inl ''permission denied'' else Inr (SqlInt 3))
        (\<lambda>cmd. Completed 0 [] []) (\<lambda>f. Inr 0)"
  let ?s = "\<lparr>effects = [PgConnect default_config, OpenCursor, Execute DatabaseSize, Execute TableCount,
                    Execute RowCount, ConnClose],
         printed = []\<rparr>"
  let ?i = "\<lparr>size_info = SqlInt 3, tables = SqlInt 3, rows = SqlInt 3\<rparr>"
  have f: "cursor_fetch ?w (effects fresh @ [PgConnect default_config, OpenCursor, Execute DatabaseSize])
             TableCount = Inl ''permission denied''"
    by simp
  have 1: "fst (get_database_info ?w default_config fresh) = None"
    using get_database_info_all_or_nothing [of ?w fresh default_config, THEN conjunct1, rule_format,
        of "''permission denied''"] f
    by simp
  have g: "get_database_info calm_world default_config fresh = (Some ?i, ?s)"
    by (simp add: get_database_info_def calm_world_def fresh_def perform_def or_zero_def)
  have 2: "cursor_fetch calm_world (effects fresh @ [PgConnect default_config, OpenCursor]) DatabaseSize =
       Inr (size_info ?i)"
    using get_database_info_all_or_nothing [of calm_world fresh default_config, THEN conjunct2,
        rule_format, of ?i ?s] g
    by simp
  from f 1 g 2 show ?thesis by simp
qed

end
